(* ===== verification/Harvest_Prelude.thy ===== *)
theory Harvest_Prelude
  imports Main
begin

text \<open>
  Shared vocabulary of the development: the types that name the program's data, the
  JavaScript runtime notions the sources rely on (the safe-integer range of \<open>number\<close>,
  the \<open>||\<close> default of an optional string, UTF-8 spellings of the non-ASCII characters
  in the sources' string literals, the separator line both drivers print), the
  combinator \<open>seguir\<close> through which a thrown error skips the rest of a sequence of
  statements, and generic lemmas on lists, slices and \<open>Max\<close> that the component
  theories share.
\<close>

named_theorems utf8_defs "UTF-8 spellings of the non-ASCII characters of the sources"
named_theorems slice_simps "rewriting of slices of a list extended at its end"

type_synonym parcelas = "int list"

subsection \<open>JavaScript runtime notions\<close>

text \<open>
  \<open>Number.MAX_SAFE_INTEGER\<close>: below this bound a JavaScript \<open>number\<close> holds every
  integer exactly and integer addition is exact.
\<close>

definition max_safe_integer :: int where
  "max_safe_integer = 2 ^ 53 - 1"

definition entero_seguro :: "int \<Rightarrow> bool" where
  "entero_seguro v \<longleftrightarrow> \<bar>v\<bar> \<le> max_safe_integer"

text \<open>
  \<open>m || d\<close> for an optional string parameter \<open>m\<close>: \<open>undefined\<close> (\<open>None\<close>) and the
  empty string are falsy and give \<open>d\<close>.
\<close>

fun o_js :: "string option \<Rightarrow> string \<Rightarrow> string" where
  "o_js None d = d"
| "o_js (Some m) d = (if m = [] then d else m)"

text \<open>String literals of the sources are byte strings here, in UTF-8.\<close>

definition i_agudo :: string where [utf8_defs]: "i_agudo = [CHR 0xC3, CHR 0xAD]"
definition o_agudo :: string where [utf8_defs]: "o_agudo = [CHR 0xC3, CHR 0xB3]"
definition u_agudo :: string where [utf8_defs]: "u_agudo = [CHR 0xC3, CHR 0xBA]"
definition nueva_linea :: string where [utf8_defs]: "nueva_linea = [CHR 0x0A]"
definition a_agudo :: string where [utf8_defs]: "a_agudo = [CHR 0xC3, CHR 0xA1]"
definition A_agudo :: string where [utf8_defs]: "A_agudo = [CHR 0xC3, CHR 0x81]"
definition I_agudo :: string where [utf8_defs]: "I_agudo = [CHR 0xC3, CHR 0x8D]"
definition n_tilde :: string where [utf8_defs]: "n_tilde = [CHR 0xC3, CHR 0xB1]"
definition emoji_semilla :: string where [utf8_defs]: "emoji_semilla = [CHR 0xF0, CHR 0x9F, CHR 0x8C, CHR 0xB1]"
definition emoji_nota :: string where [utf8_defs]: "emoji_nota = [CHR 0xF0, CHR 0x9F, CHR 0x93, CHR 0x9D]"
definition emoji_calabaza :: string where [utf8_defs]: "emoji_calabaza = [CHR 0xF0, CHR 0x9F, CHR 0x8E, CHR 0x83]"
definition emoji_advertencia :: string where [utf8_defs]: "emoji_advertencia = [CHR 0xE2, CHR 0x9A, CHR 0xA0]"
definition selector_emoji :: string where [utf8_defs]: "selector_emoji = [CHR 0xEF, CHR 0xB8, CHR 0x8F]"
definition emoji_lupa :: string where [utf8_defs]: "emoji_lupa = [CHR 0xF0, CHR 0x9F, CHR 0x94, CHR 0x8D]"
definition emoji_escudo :: string where [utf8_defs]: "emoji_escudo = [CHR 0xF0, CHR 0x9F, CHR 0x9B, CHR 0xA1]"
definition emoji_grafico :: string where [utf8_defs]: "emoji_grafico = [CHR 0xF0, CHR 0x9F, CHR 0x93, CHR 0x8A]"
definition emoji_diana :: string where [utf8_defs]: "emoji_diana = [CHR 0xF0, CHR 0x9F, CHR 0x8E, CHR 0xAF]"
definition emoji_trigo :: string where [utf8_defs]: "emoji_trigo = [CHR 0xF0, CHR 0x9F, CHR 0x8C, CHR 0xBE]"
definition emoji_tubo :: string where [utf8_defs]: "emoji_tubo = [CHR 0xF0, CHR 0x9F, CHR 0xA7, CHR 0xAA]"
definition emoji_tendencia :: string where [utf8_defs]: "emoji_tendencia = [CHR 0xF0, CHR 0x9F, CHR 0x93, CHR 0x88]"
definition marca_verde :: string where [utf8_defs]: "marca_verde = [CHR 0xE2, CHR 0x9C, CHR 0x85]"

text \<open>\<open>"=".repeat(60)\<close>, the separator line both drivers print.\<close>

definition linea_igual :: string where
  "linea_igual = replicate 60 (CHR ''='')"

text \<open>
  A thrown exception propagating out of a sequence of statements: \<open>seguir r k\<close> runs the
  continuation \<open>k\<close> on the value of \<open>r\<close>, and passes a thrown \<open>Inl e\<close> on unchanged.
\<close>

definition seguir :: "'e + 'a \<Rightarrow> ('a \<Rightarrow> 'e + 'b) \<Rightarrow> 'e + 'b" where
  "seguir r k = (case r of Inl e \<Rightarrow> Inl e | Inr a \<Rightarrow> k a)"

subsection \<open>Exceptions\<close>

lemma seguir_Inl [simp]: "seguir (Inl e) k = Inl e"
  by (simp add: seguir_def)

lemma seguir_Inr [simp]: "seguir (Inr a) k = k a"
  by (simp add: seguir_def)

lemma seguir_Inr_iff: "seguir r k = Inr b \<longleftrightarrow> (\<exists>a. r = Inr a \<and> k a = Inr b)"
  by (cases r) (simp_all add: seguir_def)

lemma seguir_cong [fundef_cong]:
  "r = r' \<Longrightarrow> (\<And>a. r' = Inr a \<Longrightarrow> k a = k' a) \<Longrightarrow> seguir r k = seguir r' k'"
  by (cases r') (simp_all add: seguir_def)

subsection \<open>Slices of a list\<close>

lemma drop_snoc [slice_simps]:
  "i \<le> length p \<Longrightarrow> drop i (p @ [x]) = drop i p @ [x]"
  by simp

lemma take_drop_snoc [slice_simps]:
  "j < length p \<Longrightarrow> take (Suc j - i) (drop i (p @ [x])) = take (Suc j - i) (drop i p)"
  by (simp add: take_drop)

lemma abs_sum_list_le: "\<bar>sum_list (xs :: int list)\<bar> \<le> sum_list (map abs xs)"
  by (induction xs) (auto intro: order.trans [OF abs_triangle_ineq])

lemma sum_list_abs_mono_take: "sum_list (map abs (take k (xs :: int list))) \<le> sum_list (map abs xs)"
proof -
  have "sum_list (map abs xs) = sum_list (map abs (take k xs)) + sum_list (map abs (drop k xs))"
    by (simp flip: sum_list_append map_append)
  moreover have "0 \<le> sum_list (map abs (drop k xs))"
    by (rule sum_list_nonneg) auto
  ultimately show ?thesis by linarith
qed

lemma sum_list_abs_mono_drop: "sum_list (map abs (drop k (xs :: int list))) \<le> sum_list (map abs xs)"
proof -
  have "sum_list (map abs xs) = sum_list (map abs (take k xs)) + sum_list (map abs (drop k xs))"
    by (simp flip: sum_list_append map_append)
  moreover have "0 \<le> sum_list (map abs (take k xs))"
    by (rule sum_list_nonneg) auto
  ultimately show ?thesis by linarith
qed

lemma abs_sum_slice_le:
  "\<bar>sum_list (take k (drop i (xs :: int list)))\<bar> \<le> sum_list (map abs xs)"
  using abs_sum_list_le [of "take k (drop i xs)"] sum_list_abs_mono_take [of k "drop i xs"]
    sum_list_abs_mono_drop [of i xs] by linarith

subsection \<open>Maxima of finite sets of integers\<close>

lemma Max_plus_const:
  "finite S \<Longrightarrow> S \<noteq> {} \<Longrightarrow> Max ((\<lambda>s. s + k) ` S) = Max S + (k :: int)"
  using Max_add_commute [of S "\<lambda>s. s" k] by simp

lemma Max_eq_iff_greatest:
  "finite S \<Longrightarrow> S \<noteq> {} \<Longrightarrow> Max S = (m :: int) \<longleftrightarrow> m \<in> S \<and> (\<forall>s\<in>S. s \<le> m)"
  by (auto intro: Max_eqI Max_in)

end
