(* ===== verification/Segment_Spec.thy ===== *)
theory Segment_Spec
  imports Harvest_Prelude
begin

text \<open>
  The abstract contract of the calculator (spec.md, sections 3 and 4.1): the answer
  for a non-empty sequence is the largest sum of a non-empty contiguous subrange
  \<open>[i..j]\<close>. The definitions here are executable enumerations of all subranges by
  index pairs; they are the reference the implementation is proved against. The second
  half decomposes both maxima by the last element of the sequence, which is the step
  Kadane's loop takes.
\<close>

definition subrango :: "parcelas \<Rightarrow> nat \<Rightarrow> nat \<Rightarrow> int list" where
  "subrango p i j = take (Suc j - i) (drop i p)"

definition sumas_subrangos :: "parcelas \<Rightarrow> int list" where
  "sumas_subrangos p =
     [sum_list (subrango p i j). i \<leftarrow> [0..<length p], j \<leftarrow> [i..<length p]]"

definition suma_maxima :: "parcelas \<Rightarrow> int" where
  "suma_maxima p = Max (set (sumas_subrangos p))"

text \<open>Sums of the non-empty subranges that end at the last element.\<close>

definition sumas_finales :: "parcelas \<Rightarrow> int list" where
  "sumas_finales p = [sum_list (drop i p). i \<leftarrow> [0..<length p]]"

definition max_final :: "parcelas \<Rightarrow> int" where
  "max_final p = Max (set (sumas_finales p))"

subsection \<open>The sets enumerated\<close>

lemma set_sumas_subrangos:
  "set (sumas_subrangos p) = {sum_list (subrango p i j) | i j. i \<le> j \<and> j < length p}"
proof (intro set_eqI iffI)
  fix s assume "s \<in> set (sumas_subrangos p)"
  then obtain i where "i \<in> set [0..<length p]"
      "s \<in> set (map (\<lambda>j. sum_list (subrango p i j)) [i..<length p])"
    unfolding sumas_subrangos_def set_concat set_map image_image by blast
  moreover from this(2) obtain j where "j \<in> set [i..<length p]" "s = sum_list (subrango p i j)"
    unfolding set_map by blast
  ultimately have "i \<le> j \<and> j < length p \<and> s = sum_list (subrango p i j)" by simp
  then show "s \<in> {sum_list (subrango p i j) | i j. i \<le> j \<and> j < length p}" by blast
next
  fix s assume "s \<in> {sum_list (subrango p i j) | i j. i \<le> j \<and> j < length p}"
  then obtain i j where ij: "i \<le> j" "j < length p" "s = sum_list (subrango p i j)" by blast
  then have "s \<in> set (map (\<lambda>j. sum_list (subrango p i j)) [i..<length p])" by simp
  moreover have "i \<in> set [0..<length p]" using ij by simp
  ultimately show "s \<in> set (sumas_subrangos p)"
    unfolding sumas_subrangos_def set_concat set_map image_image by blast
qed

lemma set_sumas_finales:
  "set (sumas_finales p) = {sum_list (drop i p) | i. i < length p}"
  by (auto simp: sumas_finales_def)

lemma sum_subrango_in [intro]:
  "i \<le> j \<Longrightarrow> j < length p \<Longrightarrow> sum_list (subrango p i j) \<in> set (sumas_subrangos p)"
  by (auto simp: set_sumas_subrangos)

lemma sumas_subrangos_ne: "p \<noteq> [] \<Longrightarrow> sumas_subrangos p \<noteq> []"
  using sum_subrango_in [of 0 0 p] by auto

lemma sumas_finales_ne: "p \<noteq> [] \<Longrightarrow> sumas_finales p \<noteq> []"
  by (simp add: sumas_finales_def)

lemma suma_maxima_ge:
  "i \<le> j \<Longrightarrow> j < length p \<Longrightarrow> sum_list (subrango p i j) \<le> suma_maxima p"
  unfolding suma_maxima_def by (rule Max_ge) auto

lemma suma_maxima_attained:
  assumes "p \<noteq> []"
  obtains i j where "i \<le> j" "j < length p" "suma_maxima p = sum_list (subrango p i j)"
proof -
  have "suma_maxima p \<in> set (sumas_subrangos p)"
    unfolding suma_maxima_def using assms by (intro Max_in) (auto simp: sumas_subrangos_ne)
  then show ?thesis using that by (auto simp: set_sumas_subrangos)
qed

text \<open>The maximum is the one value that is attained and bounds every subrange sum.\<close>

lemma suma_maxima_unique:
  assumes "p \<noteq> []"
  shows "suma_maxima p = m \<longleftrightarrow>
    (\<exists>i j. i \<le> j \<and> j < length p \<and> m = sum_list (subrango p i j)) \<and>
    (\<forall>i j. i \<le> j \<and> j < length p \<longrightarrow> sum_list (subrango p i j) \<le> m)"
proof -
  have "suma_maxima p = m \<longleftrightarrow> m \<in> set (sumas_subrangos p) \<and> (\<forall>s\<in>set (sumas_subrangos p). s \<le> m)"
    unfolding suma_maxima_def using assms by (intro Max_eq_iff_greatest) (simp_all add: sumas_subrangos_ne)
  then show ?thesis by (auto simp: set_sumas_subrangos)
qed

subsection \<open>Decomposition by the last element\<close>

lemma set_sumas_finales_snoc:
  "set (sumas_finales (p @ [x])) = insert x ((\<lambda>s. s + x) ` set (sumas_finales p))"
proof -
  have "{sum_list (drop i (p @ [x])) | i. i < Suc (length p)} =
        insert x {sum_list (drop i p) + x | i. i < length p}"
    (is "?L = ?R")
  proof
    show "?L \<subseteq> ?R"
      by (auto simp: less_Suc_eq slice_simps)
    show "?R \<subseteq> ?L"
    proof
      fix s assume "s \<in> ?R"
      then show "s \<in> ?L"
      proof
        assume "s = x"
        then have "s = sum_list (drop (length p) (p @ [x]))" by simp
        then show ?thesis by blast
      next
        assume "s \<in> {sum_list (drop i p) + x | i. i < length p}"
        then obtain i where "i < length p" "s = sum_list (drop i p) + x" by blast
        then have "s = sum_list (drop i (p @ [x])) \<and> i < Suc (length p)"
          by (simp add: slice_simps)
        then show ?thesis by blast
      qed
    qed
  qed
  moreover have "set (sumas_finales (p @ [x])) = ?L"
    by (simp add: set_sumas_finales)
  moreover have "(\<lambda>s. s + x) ` set (sumas_finales p) = {sum_list (drop i p) + x | i. i < length p}"
    by (auto simp: set_sumas_finales)
  ultimately show ?thesis by simp
qed

lemma set_sumas_subrangos_snoc:
  "set (sumas_subrangos (p @ [x])) = set (sumas_subrangos p) \<union> set (sumas_finales (p @ [x]))"
proof -
  have last: "subrango (p @ [x]) i (length p) = drop i (p @ [x])" for i
    by (simp add: subrango_def)
  have early: "j < length p \<Longrightarrow> subrango (p @ [x]) i j = subrango p i j" for i j
    by (simp add: subrango_def slice_simps)
  show ?thesis
    unfolding set_sumas_subrangos set_sumas_finales
  proof (intro set_eqI iffI)
    fix s assume "s \<in> {sum_list (subrango (p @ [x]) i j) | i j. i \<le> j \<and> j < length (p @ [x])}"
    then obtain i j where ij: "i \<le> j" "j < Suc (length p)" "s = sum_list (subrango (p @ [x]) i j)"
      by auto
    show "s \<in> {sum_list (subrango p i j) | i j. i \<le> j \<and> j < length p} \<union>
              {sum_list (drop i (p @ [x])) | i. i < length (p @ [x])}"
    proof (cases "j < length p")
      case True
      with ij early show ?thesis by auto
    next
      case False
      with ij have "j = length p" by simp
      with ij have "s = sum_list (drop i (p @ [x]))" "i < length (p @ [x])"
        using last by simp_all
      then show ?thesis by blast
    qed
  next
    fix s assume "s \<in> {sum_list (subrango p i j) | i j. i \<le> j \<and> j < length p} \<union>
                      {sum_list (drop i (p @ [x])) | i. i < length (p @ [x])}"
    then show "s \<in> {sum_list (subrango (p @ [x]) i j) | i j. i \<le> j \<and> j < length (p @ [x])}"
    proof
      assume "s \<in> {sum_list (subrango p i j) | i j. i \<le> j \<and> j < length p}"
      then obtain i j where ij: "i \<le> j" "j < length p" "s = sum_list (subrango p i j)" by blast
      then have "s = sum_list (subrango (p @ [x]) i j)" "j < length (p @ [x])"
        using early [of j i] by simp_all
      with ij(1) show ?thesis by blast
    next
      assume "s \<in> {sum_list (drop i (p @ [x])) | i. i < length (p @ [x])}"
      then obtain i where i: "i < Suc (length p)" "s = sum_list (drop i (p @ [x]))" by auto
      then have "s = sum_list (subrango (p @ [x]) i (length p))" "i \<le> length p"
        using last [of i] by simp_all
      then show ?thesis by fastforce
    qed
  qed
qed

lemma max_final_single [simp]: "max_final [x] = x"
  by (simp add: max_final_def sumas_finales_def)

lemma suma_maxima_single [simp]: "suma_maxima [x] = x"
  by (simp add: suma_maxima_def sumas_subrangos_def subrango_def)

lemma max_final_snoc:
  "p \<noteq> [] \<Longrightarrow> max_final (p @ [x]) = max x (max_final p + x)"
  unfolding max_final_def set_sumas_finales_snoc
  by (simp add: Max_insert Max_plus_const sumas_finales_ne)

lemma suma_maxima_snoc:
  "p \<noteq> [] \<Longrightarrow> suma_maxima (p @ [x]) = max (suma_maxima p) (max_final (p @ [x]))"
  unfolding suma_maxima_def max_final_def set_sumas_subrangos_snoc
  by (simp add: Max_Un sumas_subrangos_ne sumas_finales_ne)

lemmas segment_snoc = max_final_snoc suma_maxima_snoc

subsection \<open>Consequences of the specification\<close>

lemma subrango_single [simp]: "i < length p \<Longrightarrow> subrango p i i = [p ! i]"
  by (simp add: subrango_def take_Suc_conv_app_nth)

lemma elem_le_suma_maxima: "i < length p \<Longrightarrow> p ! i \<le> suma_maxima p"
  using suma_maxima_ge [of i i p] by simp

lemma sum_list_le_suma_maxima: "p \<noteq> [] \<Longrightarrow> sum_list p \<le> suma_maxima p"
  using suma_maxima_ge [of 0 "length p - 1" p] by (simp add: subrango_def)

lemma max_final_attained:
  assumes "p \<noteq> []"
  obtains i where "i < length p" "max_final p = sum_list (drop i p)"
proof -
  have "max_final p \<in> set (sumas_finales p)"
    unfolding max_final_def using assms by (intro Max_in) (auto simp: sumas_finales_ne)
  then show ?thesis using that by (auto simp: set_sumas_finales)
qed

lemma abs_sum_drop_le: "\<bar>sum_list (drop i (p :: int list))\<bar> \<le> sum_list (map abs p)"
  using abs_sum_list_le [of "drop i p"] sum_list_abs_mono_drop [of i p] by linarith

lemma abs_max_final_le: "p \<noteq> [] \<Longrightarrow> \<bar>max_final p\<bar> \<le> sum_list (map abs p)"
  by (metis max_final_attained abs_sum_drop_le)

lemma abs_suma_maxima_le: "p \<noteq> [] \<Longrightarrow> \<bar>suma_maxima p\<bar> \<le> sum_list (map abs p)"
  by (metis suma_maxima_attained subrango_def abs_sum_slice_le)

text \<open>A slice of a list with no negative element sums to at most the whole list.\<close>

lemma sum_slice_le_nonneg:
  assumes "\<forall>x\<in>set p. 0 \<le> (x :: int)"
  shows "sum_list (take k (drop i p)) \<le> sum_list p"
proof -
  have "sum_list p = sum_list (take i p) + sum_list (drop i p)"
    by (simp flip: sum_list_append)
  moreover have "sum_list (drop i p) = sum_list (take k (drop i p)) + sum_list (drop k (drop i p))"
    by (metis append_take_drop_id sum_list_append)
  moreover have "0 \<le> sum_list (take i p)" "0 \<le> sum_list (drop k (drop i p))"
    using assms by (auto intro!: sum_list_nonneg dest: in_set_takeD in_set_dropD)
  ultimately show ?thesis by linarith
qed

text \<open>A non-empty slice of a list with no positive element sums to at most its first element.\<close>

lemma sum_slice_le_first_nonpos:
  assumes "\<forall>x\<in>set p. (x :: int) \<le> 0" "i < length p" "0 < k"
  shows "sum_list (take k (drop i p)) \<le> p ! i"
proof -
  obtain k' where k: "k = Suc k'" using assms(3) by (cases k) auto
  have "drop i p = p ! i # drop (Suc i) p"
    using assms(2) by (simp add: Cons_nth_drop_Suc)
  then have "sum_list (take k (drop i p)) = p ! i + sum_list (take k' (drop (Suc i) p))"
    by (simp add: k)
  moreover have "sum_list (take k' (drop (Suc i) p)) \<le> 0"
    using assms(1) by (auto intro!: sum_list_nonpos dest: in_set_takeD in_set_dropD)
  ultimately show ?thesis by linarith
qed

lemma suma_maxima_nonneg:
  assumes "\<forall>x\<in>set p. 0 \<le> x" "p \<noteq> []"
  shows "suma_maxima p = sum_list p"
  using assms sum_list_le_suma_maxima [OF assms(2)]
  by (metis suma_maxima_attained subrango_def sum_slice_le_nonneg order.antisym)

lemma suma_maxima_nonpos:
  assumes "\<forall>x\<in>set p. x \<le> 0" "p \<noteq> []"
  shows "suma_maxima p = Max (set p)"
proof -
  obtain i j where ij: "i \<le> j" "j < length p" "suma_maxima p = sum_list (subrango p i j)"
    using suma_maxima_attained [OF assms(2)] by blast
  then have "suma_maxima p \<le> p ! i"
    using sum_slice_le_first_nonpos [OF assms(1)] by (simp add: subrango_def)
  also have "p ! i \<le> Max (set p)"
    using ij by (intro Max_ge) auto
  finally have "suma_maxima p \<le> Max (set p)" .
  moreover obtain n where "n < length p" "Max (set p) = p ! n"
    using Max_in [of "set p"] assms(2) by (auto simp: in_set_conv_nth)
  then have "Max (set p) \<le> suma_maxima p"
    by (simp add: elem_le_suma_maxima)
  ultimately show ?thesis by simp
qed

lemma suma_maxima_le_positives:
  assumes "p \<noteq> []"
  shows "suma_maxima p \<le> sum_list (map (max 0) p)"
proof -
  obtain i j where "suma_maxima p = sum_list (take (Suc j - i) (drop i p))"
    using suma_maxima_attained [OF assms] unfolding subrango_def by metis
  moreover have "sum_list xs \<le> sum_list (map (max 0) xs)" for xs :: "int list"
    by (induction xs) auto
  ultimately have "suma_maxima p \<le> sum_list (take (Suc j - i) (drop i (map (max 0) p)))"
    by (simp add: take_map drop_map)
  also have "\<dots> \<le> sum_list (map (max 0) p)"
    by (rule sum_slice_le_nonneg) auto
  finally show ?thesis .
qed

end
