(* ===== verification/Kadane.thy ===== *)
theory Kadane
  imports Segment_Spec
begin

text \<open>
  The calculator of \<open>src/maximaGanancia.ts\<close>: the interface \<open>GananciaCalculator\<close>,
  the class \<open>CalculadorGananciaMaxima\<close> with its private guard \<open>validar\<close> and its
  method \<open>calcular\<close> (Kadane's loop over the two accumulators), and the exported
  function \<open>maximaGanancia\<close>. The argument is a JavaScript value that is an array of
  numbers or something else (\<open>Array.isArray\<close> is false); numbers are integers, exact
  as long as they stay in the safe-integer range (see \<open>kadane_accumulators_safe\<close>).
  A thrown \<open>Error\<close> is the value \<open>Inl\<close> of a sum.
\<close>

datatype entrada = Arreglo parcelas | NoArreglo

datatype error = Error string

text \<open>The interface \<open>GananciaCalculator\<close>: one method from an argument to a number or a throw.\<close>

type_synonym ganancia_calculator = "entrada \<Rightarrow> error + int"

text \<open>The two local variables of \<open>calcular\<close>.\<close>

record estado =
  gananciaMaximaGlobal :: int
  gananciaMaximaLocal :: int

definition mensaje_vacio :: string where
  "mensaje_vacio = ''El array de parcelas no puede estar vac'' @ i_agudo @ ''o''"

text \<open>
  \<open>validar\<close> throws unless its argument is a non-empty array; on return the argument is
  known to be that array, which the model passes on.
\<close>

fun validar :: "entrada \<Rightarrow> error + parcelas" where
  "validar NoArreglo = Inl (Error mensaje_vacio)"
| "validar (Arreglo p) = (if length p = 0 then Inl (Error mensaje_vacio) else Inr p)"

text \<open>One iteration of the loop body: first the local, then the global accumulator.\<close>

definition paso :: "estado \<Rightarrow> int \<Rightarrow> estado" where
  "paso st x =
     (let st' = st\<lparr>gananciaMaximaLocal := max x (gananciaMaximaLocal st + x)\<rparr>
      in st'\<lparr>gananciaMaximaGlobal := max (gananciaMaximaGlobal st') (gananciaMaximaLocal st')\<rparr>)"

text \<open>\<open>for (let i = ...; i < parcelas.length; i++)\<close>: the index grows up to the length.\<close>

function bucle :: "parcelas \<Rightarrow> nat \<Rightarrow> estado \<Rightarrow> estado" where
  "bucle p i st = (if i < length p then bucle p (Suc i) (paso st (p ! i)) else st)"
  by pat_completeness auto
termination
  by (relation "measure (\<lambda>(p, i, st). length p - i)") auto

declare bucle.simps [simp del]

definition calcular :: ganancia_calculator where
  "calcular e =
     (case validar e of
        Inl err \<Rightarrow> Inl err
      | Inr p \<Rightarrow>
          (let st = \<lparr>gananciaMaximaGlobal = p ! 0, gananciaMaximaLocal = p ! 0\<rparr>
           in Inr (gananciaMaximaGlobal (bucle p 1 st))))"

text \<open>
  The class \<open>CalculadorGananciaMaxima implements GananciaCalculator\<close>: it has no fields,
  so an instance is its method \<open>calcular\<close>, a value of the interface type (its private
  \<open>validar\<close> is only reached through \<open>calcular\<close>).
\<close>

definition calculadorGananciaMaxima :: ganancia_calculator where
  "calculadorGananciaMaxima = calcular"

text \<open>\<open>maximaGanancia\<close> builds a fresh calculator (\<open>new CalculadorGananciaMaxima()\<close>)
  and delegates to it.\<close>

definition maximaGanancia :: ganancia_calculator where
  "maximaGanancia e = calculadorGananciaMaxima e"

text \<open>
  The contract of the interface (spec.md, section 4.1), for any implementation: the
  maximum subrange sum on a non-empty array, a thrown \<open>Error\<close> on an empty one.
\<close>

definition cumple_contrato :: "ganancia_calculator \<Rightarrow> bool" where
  "cumple_contrato c \<longleftrightarrow>
     (\<forall>p. p \<noteq> [] \<longrightarrow> c (Arreglo p) = Inr (suma_maxima p)) \<and> (\<exists>m. c (Arreglo []) = Inl (Error m))"

text \<open>
  Observations of the loop used in the statements below (not code): the states at the
  successive loop heads \<open>i, i+1, ..., length p\<close>, and the loop invariant. After the
  elements \<open>p\<close> have been read, the local accumulator is the best sum of a subrange
  ending at the last element read, and the global one the best sum of any subrange read.
\<close>

function traza :: "parcelas \<Rightarrow> nat \<Rightarrow> estado \<Rightarrow> estado list" where
  "traza p i st = st # (if i < length p then traza p (Suc i) (paso st (p ! i)) else [])"
  by pat_completeness auto
termination
  by (relation "measure (\<lambda>(p, i, st). length p - i)") auto

declare traza.simps [simp del]

definition inv_kadane :: "parcelas \<Rightarrow> estado \<Rightarrow> bool" where
  "inv_kadane p st \<longleftrightarrow>
     gananciaMaximaLocal st = max_final p \<and> gananciaMaximaGlobal st = suma_maxima p"

text \<open>
  The algorithm as spec.md (section 4.1) writes it, as a reference: \<open>best_overall\<close> and
  \<open>best_ending_here\<close> start at the first element, and each further element \<open>x\<close>, left to
  right, updates \<open>best_ending_here := max x (best_ending_here + x)\<close> and then
  \<open>best_overall := max best_overall best_ending_here\<close>; a structural recursion on the
  rest of the sequence, with no index.
\<close>

fun kadane_spec :: "int \<Rightarrow> int \<Rightarrow> int list \<Rightarrow> int" where
  "kadane_spec best_overall best_ending_here [] = best_overall"
| "kadane_spec best_overall best_ending_here (x # xs) =
     (let here = max x (best_ending_here + x) in kadane_spec (max best_overall here) here xs)"

subsection \<open>The loop as a fold\<close>

lemma bucle_foldl: "bucle p i st = foldl paso st (drop i p)"
proof (induction p i st rule: bucle.induct)
  case (1 p i st)
  show ?case
  proof (cases "i < length p")
    case True
    then have "drop i p = p ! i # drop (Suc i) p"
      by (simp add: Cons_nth_drop_Suc)
    with True "1.IH" show ?thesis
      by (simp add: bucle.simps [of p i st])
  qed (simp add: bucle.simps [of p i st])
qed

lemma paso_fields [simp]:
  "gananciaMaximaLocal (paso st x) = max x (gananciaMaximaLocal st + x)"
  "gananciaMaximaGlobal (paso st x) =
     max (gananciaMaximaGlobal st) (max x (gananciaMaximaLocal st + x))"
  by (simp_all add: paso_def Let_def)

subsection \<open>Loop invariant\<close>

lemma inv_kadane_init: "inv_kadane [x] \<lparr>gananciaMaximaGlobal = x, gananciaMaximaLocal = x\<rparr>"
  by (simp add: inv_kadane_def)

lemma inv_kadane_paso:
  "p \<noteq> [] \<Longrightarrow> inv_kadane p st \<Longrightarrow> inv_kadane (p @ [x]) (paso st x)"
  by (simp add: inv_kadane_def segment_snoc)

lemma inv_kadane_foldl:
  "inv_kadane (x # q0) st \<Longrightarrow> inv_kadane (x # q0 @ q) (foldl paso st q)"
proof (induction q rule: rev_induct)
  case Nil
  then show ?case by simp
next
  case (snoc y q)
  then have "inv_kadane (x # q0 @ q) (foldl paso st q)" by simp
  then have "inv_kadane ((x # q0 @ q) @ [y]) (paso (foldl paso st q) y)"
    by (rule inv_kadane_paso [rotated]) simp
  then show ?case by simp
qed

lemma bucle_inv:
  "inv_kadane (x # q) (bucle (x # q) 1 \<lparr>gananciaMaximaGlobal = x, gananciaMaximaLocal = x\<rparr>)"
  using inv_kadane_foldl [OF inv_kadane_init, of x q] by (simp add: bucle_foldl)

lemma traza_nth:
  "n \<le> length p - i \<Longrightarrow> traza p i st ! n = foldl paso st (take n (drop i p))"
proof (induction p i st arbitrary: n rule: traza.induct)
  case (1 p i st)
  show ?case
  proof (cases "i < length p")
    case True
    note step = traza.simps [of p i st]
    show ?thesis
    proof (cases n)
      case 0
      then show ?thesis by (simp add: step)
    next
      case (Suc m)
      with True "1.prems" have "m \<le> length p - Suc i" by simp
      with True "1.IH" have "traza p (Suc i) (paso st (p ! i)) ! m =
          foldl paso (paso st (p ! i)) (take m (drop (Suc i) p))" by simp
      moreover have "drop i p = p ! i # drop (Suc i) p"
        using True by (simp add: Cons_nth_drop_Suc)
      ultimately show ?thesis using True Suc by (simp add: step)
    qed
  next
    case False
    with "1.prems" show ?thesis by (simp add: traza.simps [of p i st])
  qed
qed

lemma traza_ne [simp]: "traza p i st \<noteq> []"
  by (simp add: traza.simps [of p i st])

lemma traza_inv:
  assumes "n < length p"
  shows "inv_kadane (take (Suc n) p)
           (traza p 1 \<lparr>gananciaMaximaGlobal = p ! 0, gananciaMaximaLocal = p ! 0\<rparr> ! n)"
proof -
  obtain x q where p: "p = x # q" using assms by (cases p) auto
  have "traza p 1 \<lparr>gananciaMaximaGlobal = x, gananciaMaximaLocal = x\<rparr> ! n =
        foldl paso \<lparr>gananciaMaximaGlobal = x, gananciaMaximaLocal = x\<rparr> (take n q)"
    using assms by (simp add: traza_nth p)
  moreover have "inv_kadane (x # [] @ take n q)
      (foldl paso \<lparr>gananciaMaximaGlobal = x, gananciaMaximaLocal = x\<rparr> (take n q))"
    by (rule inv_kadane_foldl [OF inv_kadane_init])
  ultimately show ?thesis by (simp add: p)
qed

subsection \<open>The result of calcular\<close>

lemma calcular_Arreglo: "p \<noteq> [] \<Longrightarrow> calcular (Arreglo p) = Inr (suma_maxima p)"
proof -
  assume "p \<noteq> []"
  then obtain x q where p: "p = x # q" by (cases p) auto
  from bucle_inv [of x q] show ?thesis
    by (simp add: calcular_def p inv_kadane_def)
qed

lemma calcular_vacio: "calcular (Arreglo []) = Inl (Error mensaje_vacio)"
  by (simp add: calcular_def)

lemma calcular_NoArreglo: "calcular NoArreglo = Inl (Error mensaje_vacio)"
  by (simp add: calcular_def)

lemmas calcular_cases = calcular_Arreglo calcular_vacio calcular_NoArreglo

lemma maximaGanancia_calcular: "maximaGanancia e = calcular e"
  by (simp add: maximaGanancia_def calculadorGananciaMaxima_def)

lemma cumple_contrato_calcular: "cumple_contrato calcular" "cumple_contrato maximaGanancia"
  by (auto simp: cumple_contrato_def maximaGanancia_calcular calcular_cases)

lemma foldl_paso_kadane_spec:
  "gananciaMaximaGlobal (foldl paso st xs) =
     kadane_spec (gananciaMaximaGlobal st) (gananciaMaximaLocal st) xs"
  by (induction xs arbitrary: st) (simp_all add: Let_def)


section \<open>Properties of the calculator\<close>

text \<open>
  C1. Refinement of the specification: on an array argument, \<open>calcular\<close> returns
  the empty-input error exactly for the empty array, and otherwise the maximum sum of a
  non-empty contiguous subrange as the abstract specification defines it.
\<close>

theorem calcular_refines_spec:
  "calcular (Arreglo p) = (if p = [] then Inl (Error mensaje_vacio) else Inr (suma_maxima p))"
  by (simp add: calcular_cases)

text \<open>
  C2. Functional correctness, stated without the abstract maximum: \<open>calcular\<close>
  returns the number \<open>m\<close> on an array exactly when the array is non-empty, \<open>m\<close> is the
  sum of some subrange \<open>[i..j]\<close>, and no subrange sums to more than \<open>m\<close>.
\<close>

theorem calcular_max_subrange:
  "calcular (Arreglo p) = Inr m \<longleftrightarrow>
     p \<noteq> [] \<and>
     (\<exists>i j. i \<le> j \<and> j < length p \<and> m = sum_list (subrango p i j)) \<and>
     (\<forall>i j. i \<le> j \<and> j < length p \<longrightarrow> sum_list (subrango p i j) \<le> m)"
proof (cases "p = []")
  case True
  then show ?thesis by (simp add: calcular_vacio)
next
  case False
  then show ?thesis using suma_maxima_unique [OF False, of m] by (auto simp: calcular_Arreglo)
qed

theorem calcular_max_subrange_witness: "calcular (Arreglo [2, -1, 3]) = Inr 4"
proof (rule calcular_max_subrange [THEN iffD2], intro conjI)
  show "\<exists>i j. i \<le> j \<and> j < length [2, -1, 3::int] \<and> 4 = sum_list (subrango [2, -1, 3] i j)"
    by (rule exI [of _ 0], rule exI [of _ 2]) (simp add: subrango_def)
  show "\<forall>i j. i \<le> j \<and> j < length [2, -1, 3::int] \<longrightarrow> sum_list (subrango [2, -1, 3] i j) \<le> 4"
    by (auto simp: subrango_def less_Suc_eq le_Suc_eq numeral_eq_Suc)
qed simp

text \<open>
  C3. Errors: \<open>calcular\<close> throws exactly when its argument is not an array or is the
  empty array, and then always the one \<open>Error\<close> with the message of \<open>validar\<close>.
\<close>

theorem calcular_error_iff:
  "calcular e = Inl err \<longleftrightarrow> (e = NoArreglo \<or> e = Arreglo []) \<and> err = Error mensaje_vacio"
proof (cases e)
  case (Arreglo p)
  then show ?thesis by (cases "p = []") (auto simp: calcular_cases)
qed (auto simp: calcular_cases)

text \<open>
  C4. Loop invariant: at the head of the loop with index \<open>n + 1\<close>, after the elements
  \<open>0..n\<close> have been read, \<open>gananciaMaximaLocal\<close> is the best sum of a subrange ending
  at element \<open>n\<close> and \<open>gananciaMaximaGlobal\<close> the best sum of any subrange of
  elements \<open>0..n\<close>.
\<close>

theorem kadane_loop_invariant:
  assumes "n < length p"
  shows "inv_kadane (take (Suc n) p)
           (traza p 1 \<lparr>gananciaMaximaGlobal = p ! 0, gananciaMaximaLocal = p ! 0\<rparr> ! n)"
  using assms by (rule traza_inv)

theorem kadane_loop_invariant_witness:
  "inv_kadane (take (Suc 1) [2, -1, 3])
     (traza [2, -1, 3] 1 \<lparr>gananciaMaximaGlobal = [2, -1, 3] ! 0, gananciaMaximaLocal = [2, -1, 3] ! 0\<rparr> ! 1)"
  by (rule kadane_loop_invariant) simp

text \<open>
  C5. Bounds: when the absolute values of the input sum to at most
  \<open>Number.MAX_SAFE_INTEGER\<close>, every value the loop holds in its accumulators, and the
  sum \<open>gananciaMaximaLocal + parcelas[i]\<close> it computes, is a safe integer, so the
  floating-point arithmetic of JavaScript computes them exactly.
\<close>

theorem kadane_accumulators_safe:
  assumes "sum_list (map abs p) \<le> max_safe_integer" and "n < length p"
  shows "let st = traza p 1 \<lparr>gananciaMaximaGlobal = p ! 0, gananciaMaximaLocal = p ! 0\<rparr> ! n
         in entero_seguro (gananciaMaximaLocal st) \<and> entero_seguro (gananciaMaximaGlobal st) \<and>
            (Suc n < length p \<longrightarrow> entero_seguro (gananciaMaximaLocal st + p ! Suc n))"
proof -
  let ?q = "take (Suc n) p"
  let ?st = "traza p 1 \<lparr>gananciaMaximaGlobal = p ! 0, gananciaMaximaLocal = p ! 0\<rparr> ! n"
  have q: "?q \<noteq> []" using assms(2) by (cases p) auto
  have bound: "sum_list (map abs (take k p)) \<le> max_safe_integer" for k
    using sum_list_abs_mono_take [of k p] assms(1) by linarith
  have inv: "inv_kadane ?q ?st" using assms(2) by (rule traza_inv)
  have "\<bar>gananciaMaximaLocal ?st\<bar> \<le> max_safe_integer"
    using inv abs_max_final_le [OF q] bound [of "Suc n"] by (simp add: inv_kadane_def)
  moreover have "\<bar>gananciaMaximaGlobal ?st\<bar> \<le> max_safe_integer"
    using inv abs_suma_maxima_le [OF q] bound [of "Suc n"] by (simp add: inv_kadane_def)
  moreover have "\<bar>gananciaMaximaLocal ?st + p ! Suc n\<bar> \<le> max_safe_integer" if "Suc n < length p"
  proof -
    obtain i where "i < length ?q" "max_final ?q = sum_list (drop i ?q)"
      using max_final_attained [OF q] by blast
    moreover have "take (Suc (Suc n)) p = ?q @ [p ! Suc n]"
      using that by (simp add: take_Suc_conv_app_nth)
    ultimately have "gananciaMaximaLocal ?st + p ! Suc n = sum_list (drop i (take (Suc (Suc n)) p))"
      using inv by (simp add: inv_kadane_def)
    then show ?thesis
      using abs_sum_drop_le [of i "take (Suc (Suc n)) p"] bound [of "Suc (Suc n)"] by linarith
  qed
  ultimately show ?thesis by (simp add: entero_seguro_def Let_def)
qed

theorem kadane_accumulators_safe_witness:
  "let st = traza [2, -1, 3] 1 \<lparr>gananciaMaximaGlobal = [2, -1, 3] ! 0, gananciaMaximaLocal = [2, -1, 3] ! 0\<rparr> ! 1
   in entero_seguro (gananciaMaximaLocal st) \<and> entero_seguro (gananciaMaximaGlobal st) \<and>
      (Suc 1 < length [2, -1, 3::int] \<longrightarrow> entero_seguro (gananciaMaximaLocal st + [2, -1, 3] ! Suc 1))"
  by (rule kadane_accumulators_safe) (simp_all add: max_safe_integer_def)



text \<open>
  C6. When no plot is cursed (no negative element), the whole array is the best
  subrange: the answer is the sum of all elements.
\<close>

theorem calcular_all_nonneg:
  assumes "\<forall>x\<in>set p. 0 \<le> x" and "p \<noteq> []"
  shows "calcular (Arreglo p) = Inr (sum_list p)"
  using assms by (simp add: calcular_Arreglo suma_maxima_nonneg)

theorem calcular_all_nonneg_witness: "calcular (Arreglo [1, 2, 3, 4]) = Inr (sum_list [1, 2, 3, 4])"
  by (rule calcular_all_nonneg) simp_all

text \<open>
  C7. When no plot is delicious (no positive element), the answer is the largest
  single element (the least cursed pumpkin).
\<close>

theorem calcular_all_nonpos:
  assumes "\<forall>x\<in>set p. x \<le> 0" and "p \<noteq> []"
  shows "calcular (Arreglo p) = Inr (Max (set p))"
  using assms by (simp add: calcular_Arreglo suma_maxima_nonpos)

theorem calcular_all_nonpos_witness:
  "calcular (Arreglo [-1, -2, -3, -4]) = Inr (Max (set [-1, -2, -3, -4]))"
  by (rule calcular_all_nonpos) simp_all

text \<open>
  C8. Bounds of the answer (spec section 8): it is at least every single element and at
  least the sum of the whole array, and at most the sum of the positive elements.
\<close>

theorem calcular_result_bounds:
  assumes "calcular (Arreglo p) = Inr m"
  shows "(\<forall>x\<in>set p. x \<le> m) \<and> sum_list p \<le> m \<and> m \<le> sum_list (map (max 0) p)"
proof -
  have p: "p \<noteq> []" using assms calcular_vacio by auto
  then have m: "m = suma_maxima p" using assms calcular_Arreglo by simp
  show ?thesis
    using elem_le_suma_maxima sum_list_le_suma_maxima [OF p] suma_maxima_le_positives [OF p]
    by (auto simp: m in_set_conv_nth)
qed

theorem calcular_result_bounds_witness:
  "list_all (\<lambda>x. x \<le> (9::int)) [8, 1, -100, 2, 5] \<and> sum_list [8, 1, -100, 2, 5] \<le> (9::int) \<and>
   9 \<le> sum_list (map (max 0) [8, 1, -100, 2, 5::int])"
proof -
  have "calcular (Arreglo [8, 1, -100, 2, 5]) = Inr 9" by code_simp
  from calcular_result_bounds [OF this] show ?thesis by (simp add: list_all_iff)
qed

text \<open>
  C9. Identical elements (spec section 8): \<open>n\<close> copies of \<open>x\<close> give \<open>n * x\<close> when
  \<open>x\<close> is not negative and \<open>x\<close> itself when it is.
\<close>

theorem calcular_replicate:
  assumes "0 < n"
  shows "calcular (Arreglo (replicate n x)) = Inr (if 0 \<le> x then int n * x else x)"
proof (cases "0 \<le> x")
  case True
  with assms show ?thesis by (simp add: calcular_Arreglo suma_maxima_nonneg sum_list_replicate)
next
  case False
  with assms show ?thesis by (simp add: calcular_Arreglo suma_maxima_nonpos)
qed

theorem calcular_replicate_witness: "calcular (Arreglo (replicate 3 (-2))) = Inr (-2)"
  using calcular_replicate [of 3 "-2"] by simp

text \<open>C10. A single element of any sign is returned unchanged (spec section 8).\<close>

theorem calcular_single: "calcular (Arreglo [x]) = Inr x"
  by (simp add: calcular_Arreglo)

text \<open>
  C24. Equivalence with the algorithm of the specification: the code's index loop
  \<open>for (let i = 1; i < parcelas.length; i++)\<close> over \<open>parcelas[i]\<close>, started from
  \<open>parcelas[0]\<close>, computes the same value as the spec's structural recursion over the
  elements after the first.
\<close>

theorem calcular_equiv_kadane_spec:
  "calcular (Arreglo (x # xs)) = Inr (kadane_spec x x xs)"
  using foldl_paso_kadane_spec [of "\<lparr>gananciaMaximaGlobal = x, gananciaMaximaLocal = x\<rparr>" xs]
  by (simp add: calcular_def bucle_foldl)

end
