(* ===== verification/Js_Number_Text.thy ===== *)
theory Js_Number_Text
  imports Harvest_Prelude
begin

text \<open>
  The decimal text of an integer-valued JavaScript \<open>number\<close>, as a template literal
  \<open>${n}\<close> prints it (\<open>Number.prototype.toString\<close> in the safe-integer range: an optional
  minus sign and the digits, no leading zeros), and the parser that reads it back.
  Digits follow the decimal expansion by \<open>div\<close> and \<open>mod\<close> 10.
\<close>

definition digito :: "nat \<Rightarrow> char" where
  "digito d = char_of (48 + d)"

fun digitos :: "nat \<Rightarrow> string" where
  "digitos n = (if n < 10 then [digito n] else digitos (n div 10) @ [digito (n mod 10)])"

declare digitos.simps [simp del]

definition cadena_numero :: "int \<Rightarrow> string" where
  "cadena_numero i = (if i < 0 then CHR ''-'' # digitos (nat (- i)) else digitos (nat i))"

definition valor_digito :: "char \<Rightarrow> nat option" where
  "valor_digito c = (let k = of_char c in if 48 \<le> k \<and> k < 58 then Some (k - 48) else None)"

text \<open>Reading digits left to right, accumulating \<open>10 * acc + d\<close>.\<close>

fun leer_digitos :: "nat \<Rightarrow> string \<Rightarrow> nat option" where
  "leer_digitos acc [] = Some acc"
| "leer_digitos acc (c # cs) =
     (case valor_digito c of None \<Rightarrow> None | Some d \<Rightarrow> leer_digitos (10 * acc + d) cs)"

definition leer_nat :: "string \<Rightarrow> nat option" where
  "leer_nat s = (if s = [] then None else leer_digitos 0 s)"

definition leer_entero :: "string \<Rightarrow> int option" where
  "leer_entero s =
     (case s of
        c # cs \<Rightarrow> if c = CHR ''-'' then map_option (\<lambda>n. - int n) (leer_nat cs)
                  else map_option int (leer_nat s)
      | [] \<Rightarrow> None)"

lemma valor_digito_digito [simp]: "d < 10 \<Longrightarrow> valor_digito (digito d) = Some d"
  by (simp add: valor_digito_def digito_def)

lemma digito_not_minus [simp]: "d < 10 \<Longrightarrow> digito d \<noteq> CHR ''-''"
proof
  assume "d < 10" "digito d = CHR ''-''"
  then have "of_char (digito d) = (45 :: nat)" by simp
  with \<open>d < 10\<close> show False by (simp add: digito_def)
qed

lemma digitos_ne [simp]: "digitos n \<noteq> []"
  by (subst digitos.simps) simp

lemma leer_digitos_append:
  "leer_digitos acc (xs @ ys) =
     (case leer_digitos acc xs of None \<Rightarrow> None | Some a \<Rightarrow> leer_digitos a ys)"
  by (induction acc xs rule: leer_digitos.induct) (simp_all split: option.split)

lemma leer_digitos_digitos: "leer_digitos acc (digitos n) = Some (acc * 10 ^ length (digitos n) + n)"
proof (induction n arbitrary: acc rule: digitos.induct)
  case (1 n)
  show ?case
  proof (cases "n < 10")
    case True
    then show ?thesis by (simp add: digitos.simps [of n])
  next
    case False
    let ?h = "digitos (n div 10)"
    have "leer_digitos acc (digitos n) = leer_digitos acc (?h @ [digito (n mod 10)])"
      using False by (simp add: digitos.simps [of n])
    also have "\<dots> = Some (10 * (acc * 10 ^ length ?h + n div 10) + n mod 10)"
      using "1.IH" False by (simp add: leer_digitos_append)
    also have "10 * (acc * 10 ^ length ?h + n div 10) + n mod 10 = acc * 10 ^ length (digitos n) + n"
      using False by (simp add: digitos.simps [of n] algebra_simps)
    finally show ?thesis .
  qed
qed

lemma leer_nat_digitos [simp]: "leer_nat (digitos n) = Some n"
  by (simp add: leer_nat_def leer_digitos_digitos)

lemma hd_digitos: "\<exists>d < 10. hd (digitos n) = digito d"
proof (induction n rule: digitos.induct)
  case (1 n)
  then show ?case by (cases "n < 10") (auto simp: digitos.simps [of n])
qed

lemma leer_cadena_numero [simp]: "leer_entero (cadena_numero i) = Some i"
proof (cases "i < 0")
  case True
  then show ?thesis by (simp add: cadena_numero_def leer_entero_def)
next
  case False
  obtain c cs where dc: "digitos (nat i) = c # cs" using digitos_ne by (cases "digitos (nat i)") auto
  obtain d where "d < 10" "hd (digitos (nat i)) = digito d" using hd_digitos by blast
  with dc have "c \<noteq> CHR ''-''" by auto
  with False dc show ?thesis
    using leer_nat_digitos [of "nat i"] by (simp add: cadena_numero_def leer_entero_def)
qed

lemma cadena_numero_inj: "cadena_numero i = cadena_numero j \<longleftrightarrow> i = j"
  by (metis leer_cadena_numero option.inject)

lemma set_digitos: "c \<in> set (digitos n) \<Longrightarrow> \<exists>d < 10. c = digito d"
proof (induction n rule: digitos.induct)
  case (1 n)
  show ?case
  proof (cases "n < 10")
    case True
    with "1.prems" show ?thesis by (auto simp: digitos.simps [of n])
  next
    case False
    with "1.prems" have "c = digito (n mod 10) \<or> c \<in> set (digitos (n div 10))"
      by (simp add: digitos.simps [of n])
    with "1.IH" False show ?thesis by (metis mod_less_divisor zero_less_numeral)
  qed
qed

lemma digito_not_comma: "d < 10 \<Longrightarrow> CHR '','' \<noteq> digito d"
proof
  assume d: "d < 10" and c: "CHR '','' = digito d"
  from c [symmetric] have "of_char (digito d) = (44 :: nat)" by simp
  with d show False by (simp add: digito_def)
qed

lemma comma_notin_digitos: "CHR '','' \<notin> set (digitos n)"
  using set_digitos digito_not_comma by blast

lemma comma_notin_cadena_numero: "CHR '','' \<notin> set (cadena_numero i)"
  by (simp add: cadena_numero_def comma_notin_digitos)

end
