(* ===== verification/Test_Runner.thy ===== *)
theory Test_Runner
  imports Js_Number_Text "HOL-Library.Sublist"
begin

text \<open>
  The class \<open>TestRunner\<close> of \<open>src/maximaGanancia.test.ts\<close> (lines 7 to 71): its three
  fields as a record, extended by the process's console (the lines written to standard
  output and standard error, in order), and its methods \<open>test\<close>, \<open>assertEqual\<close>,
  \<open>assertThrows\<close> and \<open>generarReporte\<close>. A test body is a closure that returns or
  throws; it is modelled by its outcome, \<open>Inr ()\<close> or \<open>Inl v\<close> with \<open>v\<close> the thrown
  value. \<open>process.exit(1)\<close> ends the run with exit code 1 (\<open>Some 1\<close>);
  \<open>None\<close> is a report after which the script goes on.
\<close>

text \<open>A thrown value: an \<open>Error\<close> with its message, or anything else with its \<open>String\<close> text.\<close>

datatype lanzado = ErrorJs string | OtroValor string

type_synonym 'a resultado_js = "lanzado + 'a"

datatype canal = Stdout | Stderr

record test_runner =
  testsPassed :: nat
  testsFailed :: nat
  errors :: "string list"

record proceso = test_runner +
  consola :: "(canal \<times> string) list"

definition marca_ok :: string where
  [utf8_defs]: "marca_ok = [CHR 0xE2, CHR 0x9C, CHR 0x93]"

definition marca_fallo :: string where
  [utf8_defs]: "marca_fallo = [CHR 0xE2, CHR 0x9C, CHR 0x97]"

definition nuevo_test_runner :: "(canal \<times> string) list \<Rightarrow> proceso" where
  "nuevo_test_runner c = \<lparr>testsPassed = 0, testsFailed = 0, errors = [], consola = c\<rparr>"

text \<open>\<open>error instanceof Error ? error.message : String(error)\<close>\<close>

fun mensaje_de :: "lanzado \<Rightarrow> string" where
  "mensaje_de (ErrorJs m) = m"
| "mensaje_de (OtroValor s) = s"

definition test :: "string \<Rightarrow> unit resultado_js \<Rightarrow> proceso \<Rightarrow> proceso" where
  "test descripcion testFn st =
     (case testFn of
        Inr _ \<Rightarrow>
          st\<lparr>consola := consola st @ [(Stdout, marca_ok @ '' '' @ descripcion)],
             testsPassed := Suc (testsPassed st)\<rparr>
      | Inl error \<Rightarrow>
          (let mensaje = mensaje_de error
           in st\<lparr>consola := consola st @ [(Stderr, marca_fallo @ '' '' @ descripcion),
                                           (Stderr, ''  '' @ mensaje)],
                 testsFailed := Suc (testsFailed st),
                 errors := errors st @ [descripcion @ '': '' @ mensaje]\<rparr>))"

definition assertEqual :: "int \<Rightarrow> int \<Rightarrow> string option \<Rightarrow> unit resultado_js" where
  "assertEqual actual esperado mensaje =
     (if actual \<noteq> esperado
      then Inl (ErrorJs (o_js mensaje
             (''Se esperaba '' @ cadena_numero esperado @ '', pero se obtuvo '' @ cadena_numero actual)))
      else Inr ())"

text \<open>\<open>String.prototype.includes\<close>: the needle occurs as a contiguous piece.\<close>

definition includes_js :: "string \<Rightarrow> string \<Rightarrow> bool" where
  "includes_js s t \<longleftrightarrow> sublist t s"

definition marca_aserto :: string where
  "marca_aserto = ''Se esperaba que''"

text \<open>
  The \<open>throw\<close> after \<open>fn()\<close> is inside the \<open>try\<close>, so its own error reaches the same
  \<open>catch\<close> as an error of \<open>fn\<close>: both are rethrown only when their message contains
  \<open>"Se esperaba que"\<close>, and swallowed otherwise.
\<close>

definition assertThrows :: "unit resultado_js \<Rightarrow> string option \<Rightarrow> unit resultado_js" where
  "assertThrows fn mensaje =
     (let capturado =
        (case fn of
           Inl error \<Rightarrow> error
         | Inr _ \<Rightarrow> ErrorJs (o_js mensaje ''Se esperaba que lanzara un error''))
      in case capturado of
           ErrorJs m \<Rightarrow> if includes_js m marca_aserto then Inl capturado else Inr ()
         | OtroValor s \<Rightarrow> Inr ())"

definition generarReporte :: "proceso \<Rightarrow> proceso \<times> nat option" where
  "generarReporte st =
     (let st1 = st\<lparr>consola := consola st @
                    [(Stdout, nueva_linea @ linea_igual),
                     (Stdout, ''Tests Pasados: '' @ cadena_numero (int (testsPassed st))),
                     (Stdout, ''Tests Fallidos: '' @ cadena_numero (int (testsFailed st))),
                     (Stdout, linea_igual)]\<rparr>
      in if 0 < testsFailed st
         then (st1\<lparr>consola := consola st1 @ [(Stderr, nueva_linea @ ''Errores encontrados:'')] @
                                map (\<lambda>e. (Stderr, ''  - '' @ e)) (errors st)\<rparr>, Some 1)
         else (st1, None))"

text \<open>Observations for the statements: the runner's own invariant, and a reader of the
  default message of \<open>assertEqual\<close>.\<close>

definition runner_ok :: "('a) proceso_scheme \<Rightarrow> bool" where
  "runner_ok st \<longleftrightarrow> testsFailed st = length (errors st)"

definition leer_mensaje_igualdad :: "string \<Rightarrow> (int \<times> int) option" where
  "leer_mensaje_igualdad s =
     (if take 12 s = ''Se esperaba ''
      then (let r = drop 12 s; e = takeWhile (\<lambda>c. c \<noteq> CHR '','') r;
                t = dropWhile (\<lambda>c. c \<noteq> CHR '','') r
            in if take 17 t = '', pero se obtuvo ''
               then (case (leer_entero e, leer_entero (drop 17 t)) of
                       (Some a, Some b) \<Rightarrow> Some (a, b)
                     | _ \<Rightarrow> None)
               else None)
      else None)"

subsection \<open>Lemmas\<close>

lemma test_Inr [simp]:
  "test d (Inr u) st =
     st\<lparr>consola := consola st @ [(Stdout, marca_ok @ '' '' @ d)], testsPassed := Suc (testsPassed st)\<rparr>"
  by (simp add: test_def)

lemma test_Inl [simp]:
  "test d (Inl e) st =
     st\<lparr>consola := consola st @ [(Stderr, marca_fallo @ '' '' @ d), (Stderr, ''  '' @ mensaje_de e)],
        testsFailed := Suc (testsFailed st), errors := errors st @ [d @ '': '' @ mensaje_de e]\<rparr>"
  by (simp add: test_def Let_def)

lemma test_fields:
  "testsPassed (test d f st) = (if isl f then testsPassed st else Suc (testsPassed st))"
  "testsFailed (test d f st) = (if isl f then Suc (testsFailed st) else testsFailed st)"
  "errors (test d f st) =
     (if isl f then errors st @ [d @ '': '' @ mensaje_de (projl f)] else errors st)"
  by (cases f; simp)+

lemma runner_ok_test: "runner_ok st \<Longrightarrow> runner_ok (test d f st)"
  by (simp add: runner_ok_def test_fields)

lemma runner_ok_nuevo [simp]: "runner_ok (nuevo_test_runner c)"
  by (simp add: runner_ok_def nuevo_test_runner_def)

lemma leer_mensaje_igualdad_default:
  "leer_mensaje_igualdad
     (''Se esperaba '' @ cadena_numero e @ '', pero se obtuvo '' @ cadena_numero a) = Some (e, a)"
proof -
  let ?e = "cadena_numero e" and ?a = "cadena_numero a"
  have ne: "\<And>c. c \<in> set ?e \<Longrightarrow> c \<noteq> CHR '',''"
    using comma_notin_cadena_numero [of e] by blast
  have tw: "takeWhile (\<lambda>c. c \<noteq> CHR '','') (?e @ '', pero se obtuvo '' @ ?a) = ?e"
    using ne by (simp add: takeWhile_append2)
  have dw: "dropWhile (\<lambda>c. c \<noteq> CHR '','') (?e @ '', pero se obtuvo '' @ ?a) = '', pero se obtuvo '' @ ?a"
    using ne by (simp add: dropWhile_append2)
  show ?thesis
    unfolding leer_mensaje_igualdad_def using tw dw by (simp add: Let_def)
qed

lemma includes_default_message: "includes_js ''Se esperaba que lanzara un error'' marca_aserto"
  by code_simp

section \<open>Properties of the test runner\<close>

text \<open>
  C11. \<open>assertThrows\<close> on a function that does not throw: it passes exactly when a
  custom message is given that is non-empty and does not contain \<open>"Se esperaba que"\<close>.
  Its own "expected a throw" error is caught by its own \<open>catch\<close> and swallowed, so
  with such a message the assertion can never fail.
\<close>

theorem assertThrows_no_throw_passes:
  "assertThrows (Inr u) mensaje = Inr () \<longleftrightarrow>
     (\<exists>m. mensaje = Some m \<and> m \<noteq> [] \<and> \<not> includes_js m marca_aserto)"
proof (cases mensaje)
  case None
  then show ?thesis using includes_default_message by (simp add: assertThrows_def)
next
  case (Some m)
  then show ?thesis using includes_default_message by (simp add: assertThrows_def)
qed

text \<open>
  C12. Invariant of \<open>TestRunner\<close>: each call of \<open>test\<close> counts exactly one test, as
  passed or as failed, and keeps \<open>testsFailed\<close> equal to the number of recorded errors.
\<close>

theorem test_preserves_runner_ok:
  assumes "runner_ok st"
  shows "runner_ok (test d f st) \<and>
         testsPassed (test d f st) + testsFailed (test d f st) = Suc (testsPassed st + testsFailed st)"
  using assms by (simp add: runner_ok_test test_fields)

theorem test_preserves_runner_ok_witness:
  "runner_ok (test ''t'' (Inr ()) (nuevo_test_runner [])) \<and>
   testsPassed (test ''t'' (Inr ()) (nuevo_test_runner [])) + testsFailed (test ''t'' (Inr ()) (nuevo_test_runner [])) =
     Suc (testsPassed (nuevo_test_runner []) + testsFailed (nuevo_test_runner []))"
  by (rule test_preserves_runner_ok) simp

text \<open>
  C13. The report: under the runner invariant, \<open>generarReporte\<close> exits with code 1
  exactly when some error was recorded, and what it writes to standard error is the
  header and one line per recorded error, in order.
\<close>

theorem generarReporte_exit_code:
  assumes "runner_ok st"
  shows "snd (generarReporte st) = (if errors st = [] then None else Some 1) \<and>
         [l \<leftarrow> consola (fst (generarReporte st)). fst l = Stderr] =
           [l \<leftarrow> consola st. fst l = Stderr] @
           (if errors st = [] then []
            else (Stderr, nueva_linea @ ''Errores encontrados:'') # map (\<lambda>e. (Stderr, ''  - '' @ e)) (errors st))"
  using assms by (auto simp: generarReporte_def runner_ok_def Let_def)

theorem generarReporte_exit_code_witness:
  "snd (generarReporte (test ''t'' (Inl (ErrorJs ''m'')) (nuevo_test_runner []))) =
     (if errors (test ''t'' (Inl (ErrorJs ''m'')) (nuevo_test_runner [])) = [] then None else Some 1) \<and>
   [l \<leftarrow> consola (fst (generarReporte (test ''t'' (Inl (ErrorJs ''m'')) (nuevo_test_runner [])))). fst l = Stderr] =
     [l \<leftarrow> consola (test ''t'' (Inl (ErrorJs ''m'')) (nuevo_test_runner [])). fst l = Stderr] @
     (if errors (test ''t'' (Inl (ErrorJs ''m'')) (nuevo_test_runner [])) = [] then []
      else (Stderr, nueva_linea @ ''Errores encontrados:'') #
           map (\<lambda>e. (Stderr, ''  - '' @ e)) (errors (test ''t'' (Inl (ErrorJs ''m'')) (nuevo_test_runner []))))"
  by (rule generarReporte_exit_code, rule runner_ok_test) simp

text \<open>
  C14. Round trip of the default failure message of \<open>assertEqual\<close>: when no custom
  message (or an empty one) is given, the message it throws names the expected and the
  actual value, and both can be read back from it.
\<close>

theorem assertEqual_default_message_roundtrip:
  assumes "assertEqual actual esperado mensaje = Inl (ErrorJs msg)" and "o_js mensaje [] = []"
  shows "actual \<noteq> esperado \<and> leer_mensaje_igualdad msg = Some (esperado, actual)"
proof -
  have d: "o_js mensaje s = s" for s
    using assms(2) by (cases mensaje) (auto split: if_splits)
  from assms(1) have "actual \<noteq> esperado" by (simp add: assertEqual_def split: if_splits)
  moreover from assms(1) calculation
  have "msg = ''Se esperaba '' @ cadena_numero esperado @ '', pero se obtuvo '' @ cadena_numero actual"
    by (simp add: assertEqual_def d)
  ultimately show ?thesis using leer_mensaje_igualdad_default [of esperado actual] by simp
qed

theorem assertEqual_default_message_roundtrip_witness:
  "3 \<noteq> (4::int) \<and> leer_mensaje_igualdad ''Se esperaba 4, pero se obtuvo 3'' = Some (4, 3)"
proof (rule assertEqual_default_message_roundtrip)
  show "assertEqual 3 4 None = Inl (ErrorJs ''Se esperaba 4, pero se obtuvo 3'')" by code_simp
qed simp

end
