(* ===== verification/Test_Suite.thy ===== *)
theory Test_Suite
  imports Kadane Test_Runner
begin

text \<open>
  The script of \<open>src/maximaGanancia.test.ts\<close> (lines 73 to 313): a fresh
  \<open>TestRunner\<close>, a sequence of statements (console headers and \<open>runner.test\<close> calls,
  in nine sections as the file groups them) and the final \<open>runner.generarReporte()\<close>.
  The closures of the tests call \<open>maximaGanancia\<close> and, in the last section, the
  class method \<open>calcular\<close>; both are parameters here, of the interface type
  \<open>ganancia_calculator\<close>, so that the suite can be run on any implementation.
  The script is also read as a state machine: the reachable runner states
  (\<open>alcanzable\<close>) and a small-step relation on (runner, statements left)
  (\<open>paso_script\<close>).
\<close>

text \<open>A top-level statement of the script.\<close>

datatype sentencia = Log string | Prueba string "unit resultado_js"

text \<open>A call that may throw the calculator's \<open>Error\<close>, seen from the closure that makes it.\<close>

fun lanzar_error :: "error + 'a \<Rightarrow> 'a resultado_js" where
  "lanzar_error (Inl (Error m)) = Inl (ErrorJs m)"
| "lanzar_error (Inr v) = Inr v"

text \<open>\<open>() => maximaGanancia([])\<close> as the \<open>fn\<close> of \<open>assertThrows\<close>: its value is dropped.\<close>

definition descartar :: "'a resultado_js \<Rightarrow> unit resultado_js" where
  "descartar r = map_sum id (\<lambda>_. ()) r"

text \<open>
  The closure \<open>() => { const resultado = f(parcelas);
  runner.assertEqual(resultado, esperado, mensaje); }\<close>.
\<close>

definition caso_igual :: "ganancia_calculator \<Rightarrow> parcelas \<Rightarrow> int \<Rightarrow> string \<Rightarrow> unit resultado_js" where
  "caso_igual f parcelas esperado mensaje =
     (case lanzar_error (f (Arreglo parcelas)) of
        Inl e \<Rightarrow> Inl e
      | Inr resultado \<Rightarrow> assertEqual resultado esperado (Some mensaje))"

definition casos_enunciado :: "ganancia_calculator \<Rightarrow> sentencia list" where
  "casos_enunciado f =
    [Log (emoji_semilla @ '' Iniciando tests de La Cosecha de Calabazas Malditas '' @ emoji_semilla @ nueva_linea),
     Log (emoji_nota @ '' Casos de ejemplo del enunciado:''),
     Prueba (''Caso 1: Array con todos n'' @ u_agudo @ ''meros positivos [1, 2, 3, 4]'')
       (caso_igual f [1, 2, 3, 4] (10) (''Deber'' @ i_agudo @ ''a ser 10'')),
     Prueba (''Caso 2: Array con todos n'' @ u_agudo @ ''meros negativos [-1, -2, -3, -4]'')
       (caso_igual f [-1, -2, -3, -4] (-1) (''Deber'' @ i_agudo @ ''a ser -1 (la calabaza menos maldita)'')),
     Prueba (''Caso 3: Array con n'' @ u_agudo @ ''meros mixtos [8, 1, -100, 2, 5]'')
       (caso_igual f [8, 1, -100, 2, 5] (9) (''Deber'' @ i_agudo @ ''a ser 9 (suma de [8, 1])''))]"

definition casos_cosecha :: "ganancia_calculator \<Rightarrow> sentencia list" where
  "casos_cosecha f =
    [Log (nueva_linea @ emoji_calabaza @ '' Casos espec'' @ i_agudo @ ''ficos de la cosecha de calabazas malditas:''),
     Prueba ''Cosecha de calabazas malditas (caso original) [2, -5, 8, -2, 4, -10, 3, 1]''
       (caso_igual f [2, -5, 8, -2, 4, -10, 3, 1] (10) (''Deber'' @ i_agudo @ ''a ser 10 (suma de [8, -2, 4])''))]"

definition casos_extremos :: "ganancia_calculator \<Rightarrow> sentencia list" where
  "casos_extremos f =
    [Log (nueva_linea @ emoji_advertencia @ selector_emoji @ ''  Casos extremos:''),
     Prueba ''Array con un solo elemento positivo [5]''
       (caso_igual f [5] (5) (''Deber'' @ i_agudo @ ''a retornar el elemento '' @ u_agudo @ ''nico'')),
     Prueba ''Array con un solo elemento negativo [-5]''
       (caso_igual f [-5] (-5) (''Deber'' @ i_agudo @ ''a retornar el elemento '' @ u_agudo @ ''nico'')),
     Prueba ''Array con ceros [0, 0, 0]''
       (caso_igual f [0, 0, 0] (0) (''Deber'' @ i_agudo @ ''a retornar 0'')),
     Prueba ''Array con un cero y negativos [0, -5, -3]''
       (caso_igual f [0, -5, -3] (0) (''Deber'' @ i_agudo @ ''a retornar 0''))]"

definition casos_kadane :: "ganancia_calculator \<Rightarrow> sentencia list" where
  "casos_kadane f =
    [Log (nueva_linea @ emoji_lupa @ '' Pruebas del algoritmo Kadane:''),
     Prueba ''Sub-array en el medio [1, -3, 2, 3, -1, 4]''
       (caso_igual f [1, -3, 2, 3, -1, 4] (8) (''Deber'' @ i_agudo @ ''a ser 8 (suma de [2, 3, -1, 4])'')),
     Prueba ''Sub-array al inicio [-2, -3, 5, 1, -2]''
       (caso_igual f [-2, -3, 5, 1, -2] (6) (''Deber'' @ i_agudo @ ''a ser 6 (suma de [5, 1])'')),
     Prueba ''Sub-array al final [1, -1, -1, 5, 4]''
       (caso_igual f [1, -1, -1, 5, 4] (9) (''Deber'' @ i_agudo @ ''a ser 9 (suma de [5, 4])'')),
     Prueba ''Todo el array es la respuesta [1, 2, 3, 4, 5]''
       (caso_igual f [1, 2, 3, 4, 5] (15) (''Deber'' @ i_agudo @ ''a ser 15'')),
     Prueba ''Un elemento en el medio [3, -2, 5, -2, 3]''
       (caso_igual f [3, -2, 5, -2, 3] (7) (''Deber'' @ i_agudo @ ''a ser 7 (suma de [3, -2, 5, -2, 3])''))]"

definition casos_validacion :: "ganancia_calculator \<Rightarrow> sentencia list" where
  "casos_validacion f =
    [Log (nueva_linea @ emoji_escudo @ selector_emoji @ ''  Pruebas de validaci'' @ o_agudo @ ''n:''),
     Prueba (''Array vac'' @ i_agudo @ ''o deber'' @ i_agudo @ ''a lanzar error'')
       (assertThrows (descartar (lanzar_error (f (Arreglo [])))) (Some (''Deber'' @ i_agudo @ ''a lanzar error para array vac'' @ i_agudo @ ''o'')))]"

definition casos_grandes :: "ganancia_calculator \<Rightarrow> sentencia list" where
  "casos_grandes f =
    [Log (nueva_linea @ emoji_grafico @ '' Pruebas con n'' @ u_agudo @ ''meros grandes:''),
     Prueba (''Array con n'' @ u_agudo @ ''meros muy grandes [1000000, -500000, 2000000]'')
       (caso_igual f [1000000, -500000, 2000000] (2500000) (''Deber'' @ i_agudo @ ''a manejar n'' @ u_agudo @ ''meros grandes'')),
     Prueba (''Array con n'' @ u_agudo @ ''meros muy negativos [-1000, -2000, -500]'')
       (caso_igual f [-1000, -2000, -500] (-500) (''Deber'' @ i_agudo @ ''a ser -500 (el menos malo)''))]"

definition casos_patrones :: "ganancia_calculator \<Rightarrow> sentencia list" where
  "casos_patrones f =
    [Log (nueva_linea @ emoji_diana @ '' Patrones especiales:''),
     Prueba (''Patr'' @ o_agudo @ ''n alternado [5, -5, 5, -5, 5]'')
       (caso_igual f [5, -5, 5, -5, 5] (5) (''Deber'' @ i_agudo @ ''a retornar 5'')),
     Prueba ''Muchos negativos con un positivo [-10, -20, 15, -30, -50]''
       (caso_igual f [-10, -20, 15, -30, -50] (15) (''Deber'' @ i_agudo @ ''a retornar 15'')),
     Prueba ''Dos picos [1, -2, 5, -2, 3]''
       (caso_igual f [1, -2, 5, -2, 3] (6) (''Deber'' @ i_agudo @ ''a retornar 6 (suma de [5, -2, 3])''))]"

definition casos_reales :: "ganancia_calculator \<Rightarrow> sentencia list" where
  "casos_reales f =
    [Log (nueva_linea @ emoji_trigo @ '' Escenarios realistas de cosecha de calabazas:''),
     Prueba ''Buen inicio, mal final [10, 5, -20]''
       (caso_igual f [10, 5, -20] (15) (''Deber'' @ i_agudo @ ''a retornar 15'')),
     Prueba ''Mal inicio, buen final [-20, 5, 10]''
       (caso_igual f [-20, 5, 10] (15) (''Deber'' @ i_agudo @ ''a retornar 15'')),
     Prueba ''Calabazas deliciosas rodeadas de malditas [2, -1, 10, 5, 8, -2, 3]''
       (caso_igual f [2, -1, 10, 5, 8, -2, 3] (25) (''Deber'' @ i_agudo @ ''a retornar 25 (suma de todo el array)''))]"

definition casos_clase :: "ganancia_calculator \<Rightarrow> sentencia list" where
  "casos_clase c =
    [Log (nueva_linea @ emoji_tubo @ '' Tests de la clase CalculadorGananciaMaxima:''),
     Prueba ''Usar la clase directamente''
       (caso_igual c [5, -3, 5] (7) (''Deber'' @ i_agudo @ ''a funcionar usando la clase''))]"

definition suite :: "ganancia_calculator \<Rightarrow> ganancia_calculator \<Rightarrow> sentencia list" where
  "suite f c =
     casos_enunciado f @ casos_cosecha f @ casos_extremos f @ casos_kadane f @
     casos_validacion f @ casos_grandes f @ casos_patrones f @ casos_reales f @ casos_clase c"

fun ejecutar_sentencia :: "proceso \<Rightarrow> sentencia \<Rightarrow> proceso" where
  "ejecutar_sentencia st (Log s) = st\<lparr>consola := consola st @ [(Stdout, s)]\<rparr>"
| "ejecutar_sentencia st (Prueba d t) = test d t st"

definition script_tests :: "ganancia_calculator \<Rightarrow> ganancia_calculator \<Rightarrow> proceso \<times> nat option" where
  "script_tests f c = generarReporte (foldl ejecutar_sentencia (nuevo_test_runner []) (suite f c))"

text \<open>Observation for the statements: which statements are tests.\<close>

fun es_prueba :: "sentencia \<Rightarrow> bool" where
  "es_prueba (Log _) = False"
| "es_prueba (Prueba _ _) = True"

text \<open>
  The script as a state machine: the runner created at start-up is reachable, and each
  top-level statement of the file (a log line or a call of \<open>runner.test\<close>) is a step.
\<close>

inductive alcanzable :: "proceso \<Rightarrow> bool" where
  inicio: "alcanzable (nuevo_test_runner [])"
| paso_sentencia: "alcanzable st \<Longrightarrow> alcanzable (ejecutar_sentencia st s)"

text \<open>What the \<open>catch\<close> of \<open>test\<close> records for a failed test with description \<open>d\<close>
  and message \<open>m\<close>: the entry pushed on \<open>errors\<close>, and the two lines written to stderr.\<close>

definition registro_error :: "string \<times> string \<Rightarrow> string" where
  "registro_error dm = fst dm @ '': '' @ snd dm"

definition lineas_error :: "string \<times> string \<Rightarrow> (canal \<times> string) list" where
  "lineas_error dm = [(Stderr, marca_fallo @ '' '' @ fst dm), (Stderr, ''  '' @ snd dm)]"

text \<open>
  The same script as a small-step relation on configurations (runner, statements still
  to run): one step runs the next top-level statement. A configuration with no statement
  left is final; there the script calls \<open>runner.generarReporte()\<close>.
\<close>

inductive paso_script :: "proceso \<times> sentencia list \<Rightarrow> proceso \<times> sentencia list \<Rightarrow> bool" where
  ejecuta: "paso_script (st, s # ss) (ejecutar_sentencia st s, ss)"

subsection \<open>Lemmas\<close>

lemma ejecutar_sentencia_runner:
  "runner_ok st \<Longrightarrow> runner_ok (ejecutar_sentencia st x) \<and>
     testsPassed (ejecutar_sentencia st x) + testsFailed (ejecutar_sentencia st x) =
     testsPassed st + testsFailed st + (if es_prueba x then 1 else 0)"
  by (cases x) (auto simp: runner_ok_def test_fields)

lemma foldl_ejecutar_runner:
  "runner_ok st \<Longrightarrow> runner_ok (foldl ejecutar_sentencia st ss) \<and>
     testsPassed (foldl ejecutar_sentencia st ss) + testsFailed (foldl ejecutar_sentencia st ss) =
     testsPassed st + testsFailed st + length (filter es_prueba ss)"
proof (induction ss arbitrary: st)
  case Nil
  then show ?case by simp
next
  case (Cons x ss)
  from ejecutar_sentencia_runner [OF Cons.prems, of x] Cons.IH [of "ejecutar_sentencia st x"]
  show ?case by simp
qed

lemma generarReporte_fields [simp]:
  "testsPassed (fst (generarReporte st)) = testsPassed st"
  "testsFailed (fst (generarReporte st)) = testsFailed st"
  "errors (fst (generarReporte st)) = errors st"
  by (simp_all add: generarReporte_def Let_def)

lemma suite_tests_count: "length (filter es_prueba (suite f c)) = 23"
  by (simp add: suite_def casos_enunciado_def casos_cosecha_def casos_extremos_def casos_kadane_def
      casos_validacion_def casos_grandes_def casos_patrones_def casos_reales_def casos_clase_def)

lemma assertThrows_vacio_implementacion:
  "assertThrows (descartar (lanzar_error (maximaGanancia (Arreglo []))))
     (Some (''Deber'' @ i_agudo @ ''a lanzar error para array vac'' @ i_agudo @ ''o'')) = Inr ()"
  by code_simp

lemma assertThrows_sin_lanzar:
  "assertThrows (Inr u) (Some (''Deber'' @ i_agudo @ ''a lanzar error para array vac'' @ i_agudo @ ''o'')) = Inr ()"
  by code_simp

lemma mensaje_vacio_sin_marca: "\<not> includes_js mensaje_vacio marca_aserto"
  by code_simp

lemma suite_cong:
  assumes "\<And>p. p \<noteq> [] \<Longrightarrow> f (Arreglo p) = maximaGanancia (Arreglo p)"
    and "\<And>p. p \<noteq> [] \<Longrightarrow> c (Arreglo p) = calcular (Arreglo p)"
    and "assertThrows (descartar (lanzar_error (f (Arreglo []))))
           (Some (''Deber'' @ i_agudo @ ''a lanzar error para array vac'' @ i_agudo @ ''o'')) = Inr ()"
  shows "suite f c = suite maximaGanancia calcular"
  unfolding suite_def casos_enunciado_def casos_cosecha_def casos_extremos_def casos_kadane_def
    casos_validacion_def casos_grandes_def casos_patrones_def casos_reales_def casos_clase_def
  using assms assertThrows_vacio_implementacion by (simp add: caso_igual_def)

lemma script_tests_implementacion:
  "testsPassed (fst (script_tests maximaGanancia calcular)) = 23 \<and>
   testsFailed (fst (script_tests maximaGanancia calcular)) = 0 \<and>
   errors (fst (script_tests maximaGanancia calcular)) = [] \<and>
   snd (script_tests maximaGanancia calcular) = None"
  by code_simp

lemma alcanzable_foldl: "alcanzable st \<Longrightarrow> alcanzable (foldl ejecutar_sentencia st ss)"
  by (induction ss arbitrary: st) (auto intro: alcanzable.paso_sentencia)

lemma alcanzable_iff_foldl:
  "alcanzable st \<longleftrightarrow> (\<exists>ss. st = foldl ejecutar_sentencia (nuevo_test_runner []) ss)"
proof
  assume "alcanzable st"
  then show "\<exists>ss. st = foldl ejecutar_sentencia (nuevo_test_runner []) ss"
  proof (induction rule: alcanzable.induct)
    case inicio
    show ?case by (rule exI [of _ "[]"]) simp
  next
    case (paso_sentencia st s)
    then obtain ss where "st = foldl ejecutar_sentencia (nuevo_test_runner []) ss" by blast
    then show ?case by (intro exI [of _ "ss @ [s]"]) simp
  qed
next
  assume "\<exists>ss. st = foldl ejecutar_sentencia (nuevo_test_runner []) ss"
  then show "alcanzable st" using alcanzable_foldl alcanzable.inicio by blast
qed

lemma filter_lineas_error [simp]: "[l \<leftarrow> lineas_error dm. fst l = Stderr] = lineas_error dm"
  by (simp add: lineas_error_def)

lemma ejecutar_sentencia_stderr:
  "[l \<leftarrow> consola (ejecutar_sentencia st s). fst l = Stderr] =
     [l \<leftarrow> consola st. fst l = Stderr] @
     (case s of Prueba d (Inl e) \<Rightarrow> lineas_error (d, mensaje_de e) | _ \<Rightarrow> [])"
  "errors (ejecutar_sentencia st s) =
     errors st @ (case s of Prueba d (Inl e) \<Rightarrow> [registro_error (d, mensaje_de e)] | _ \<Rightarrow> [])"
  by (cases s; simp add: test_def Let_def lineas_error_def registro_error_def split: sum.split)+

lemma alcanzable_errores:
  assumes "alcanzable st"
  shows "\<exists>fs. length fs = testsFailed st \<and> errors st = map registro_error fs \<and>
           [l \<leftarrow> consola st. fst l = Stderr] = concat (map lineas_error fs)"
  using assms
proof (induction rule: alcanzable.induct)
  case inicio
  show ?case by (rule exI [of _ "[]"]) (simp add: nuevo_test_runner_def)
next
  case (paso_sentencia st s)
  then obtain fs where fs: "length fs = testsFailed st" "errors st = map registro_error fs"
    "[l \<leftarrow> consola st. fst l = Stderr] = concat (map lineas_error fs)" by blast
  show ?case
  proof (cases "\<exists>d e. s = Prueba d (Inl e)")
    case True
    then obtain d e where s: "s = Prueba d (Inl e)" by blast
    show ?thesis
      using fs ejecutar_sentencia_stderr [of st s]
      by (intro exI [of _ "fs @ [(d, mensaje_de e)]"]) (simp add: s)
  next
    case False
    then have "testsFailed (ejecutar_sentencia st s) = testsFailed st"
      by (cases s) (auto simp: test_def split: sum.split)
    moreover have "(case s of Prueba d (Inl e) \<Rightarrow> lineas_error (d, mensaje_de e) | _ \<Rightarrow> []) = []"
      "(case s of Prueba d (Inl e) \<Rightarrow> [registro_error (d, mensaje_de e)] | _ \<Rightarrow> []) = []"
      using False by (auto split: sentencia.split sum.split)
    ultimately show ?thesis using fs ejecutar_sentencia_stderr [of st s] by (intro exI [of _ fs]) simp
  qed
qed

inductive_cases paso_script_E: "paso_script (st, ss) c"


lemma paso_script_determ: "paso_script c c1 \<Longrightarrow> paso_script c c2 \<Longrightarrow> c2 = c1"
  by (induction rule: paso_script.induct) (auto elim: paso_script_E)



section \<open>Properties of the test script\<close>

text \<open>
  C15. The suite of \<open>maximaGanancia.test.ts\<close> against the interface: for every pair of
  implementations meeting the contract of \<open>GananciaCalculator\<close> (with an empty-array
  error message that does not contain \<open>"Se esperaba que"\<close>), the script reports 23
  passed tests, no failure, no error, and does not call \<open>process.exit(1)\<close>. The
  implementation itself is such a pair (the witness).
\<close>

theorem suite_passes_for_contract:
  assumes "cumple_contrato f" and "cumple_contrato c"
    and "\<forall>m. f (Arreglo []) = Inl (Error m) \<longrightarrow> \<not> includes_js m marca_aserto"
  shows "testsPassed (fst (script_tests f c)) = 23 \<and> testsFailed (fst (script_tests f c)) = 0 \<and>
         errors (fst (script_tests f c)) = [] \<and> snd (script_tests f c) = None"
proof -
  have f: "f (Arreglo p) = maximaGanancia (Arreglo p)" if "p \<noteq> []" for p
    using assms(1) that cumple_contrato_calcular(2) by (simp add: cumple_contrato_def)
  have c: "c (Arreglo p) = calcular (Arreglo p)" if "p \<noteq> []" for p
    using assms(2) that cumple_contrato_calcular(1) by (simp add: cumple_contrato_def)
  obtain m where m: "f (Arreglo []) = Inl (Error m)"
    using assms(1) by (auto simp: cumple_contrato_def)
  with assms(3) have "assertThrows (descartar (lanzar_error (f (Arreglo []))))
      (Some (''Deber'' @ i_agudo @ ''a lanzar error para array vac'' @ i_agudo @ ''o'')) = Inr ()"
    by (simp add: assertThrows_def descartar_def)
  then have "script_tests f c = script_tests maximaGanancia calcular"
    using suite_cong [OF f c] by (simp add: script_tests_def)
  then show ?thesis using script_tests_implementacion by simp
qed

theorem suite_passes_for_contract_witness:
  "testsPassed (fst (script_tests maximaGanancia calcular)) = 23 \<and>
   testsFailed (fst (script_tests maximaGanancia calcular)) = 0 \<and>
   errors (fst (script_tests maximaGanancia calcular)) = [] \<and>
   snd (script_tests maximaGanancia calcular) = None"
proof (rule suite_passes_for_contract)
  show "\<forall>m. maximaGanancia (Arreglo []) = Inl (Error m) \<longrightarrow> \<not> includes_js m marca_aserto"
    by (simp add: maximaGanancia_calcular calcular_vacio mensaje_vacio_sin_marca)
qed (rule cumple_contrato_calcular)+

text \<open>
  C16. The suite does not check the empty-input contract: an implementation that returns
  a number on the empty array instead of throwing (violating the contract) still passes
  all 23 tests, because the empty-array test relies on \<open>assertThrows\<close> with a custom
  message (C11).
\<close>

theorem suite_accepts_value_on_empty:
  assumes "\<forall>p. p \<noteq> [] \<longrightarrow> f (Arreglo p) = Inr (suma_maxima p)"
    and "f (Arreglo []) = Inr v" and "cumple_contrato c"
  shows "\<not> cumple_contrato f \<and>
         testsPassed (fst (script_tests f c)) = 23 \<and> testsFailed (fst (script_tests f c)) = 0 \<and>
         snd (script_tests f c) = None"
proof -
  have f: "f (Arreglo p) = maximaGanancia (Arreglo p)" if "p \<noteq> []" for p
    using assms(1) that by (simp add: maximaGanancia_calcular calcular_Arreglo)
  have c: "c (Arreglo p) = calcular (Arreglo p)" if "p \<noteq> []" for p
    using assms(3) that cumple_contrato_calcular(1) by (simp add: cumple_contrato_def)
  have "assertThrows (descartar (lanzar_error (f (Arreglo []))))
      (Some (''Deber'' @ i_agudo @ ''a lanzar error para array vac'' @ i_agudo @ ''o'')) = Inr ()"
    using assms(2) assertThrows_sin_lanzar by (simp add: descartar_def)
  then have "script_tests f c = script_tests maximaGanancia calcular"
    using suite_cong [OF f c] by (simp add: script_tests_def)
  moreover have "\<not> cumple_contrato f"
    using assms(2) by (simp add: cumple_contrato_def)
  ultimately show ?thesis using script_tests_implementacion by simp
qed

theorem suite_accepts_value_on_empty_witness:
  "\<not> cumple_contrato (\<lambda>e. if e = Arreglo [] then Inr 0 else calcular e) \<and>
   testsPassed (fst (script_tests (\<lambda>e. if e = Arreglo [] then Inr 0 else calcular e) calcular)) = 23 \<and>
   testsFailed (fst (script_tests (\<lambda>e. if e = Arreglo [] then Inr 0 else calcular e) calcular)) = 0 \<and>
   snd (script_tests (\<lambda>e. if e = Arreglo [] then Inr 0 else calcular e) calcular) = None"
proof (rule suite_accepts_value_on_empty)
  show "\<forall>p. p \<noteq> [] \<longrightarrow> (if Arreglo p = Arreglo [] then Inr 0 else calcular (Arreglo p)) = Inr (suma_maxima p)"
    by (simp add: calcular_Arreglo)
qed (simp_all add: cumple_contrato_calcular)

text \<open>
  C17. Whatever the implementations return or throw, the script runs each of its 23 tests
  exactly once (every test is counted as passed or failed) and its runner keeps
  \<open>testsFailed\<close> equal to the number of recorded errors.
\<close>

theorem script_counts_every_test:
  "runner_ok (fst (script_tests f c)) \<and>
   testsPassed (fst (script_tests f c)) + testsFailed (fst (script_tests f c)) = 23"
  using foldl_ejecutar_runner [OF runner_ok_nuevo, of "[]" "suite f c"]
  by (simp add: script_tests_def suite_tests_count runner_ok_def nuevo_test_runner_def)

text \<open>
  C22. Invariant of the script's state machine, by rule induction: in every state the
  script can reach, \<open>testsFailed\<close> equals the number of recorded errors, and the
  recorded errors and the lines on stderr come from the same list of failures
  (description, message), in order: one entry \<open>"d: m"\<close> and the two lines
  (the failure mark followed by \<open>d\<close>, and \<open>m\<close> indented) per failed test.
\<close>

theorem alcanzable_runner_invariant:
  assumes "alcanzable st"
  shows "runner_ok st \<and>
         (\<exists>fs. length fs = testsFailed st \<and> errors st = map registro_error fs \<and>
               [l \<leftarrow> consola st. fst l = Stderr] = concat (map lineas_error fs))"
proof -
  obtain fs where "length fs = testsFailed st" "errors st = map registro_error fs"
    "[l \<leftarrow> consola st. fst l = Stderr] = concat (map lineas_error fs)"
    using alcanzable_errores [OF assms] by blast
  then show ?thesis by (auto simp: runner_ok_def)
qed

theorem alcanzable_runner_invariant_witness:
  "alcanzable (ejecutar_sentencia (nuevo_test_runner []) (Prueba ''t'' (Inl (ErrorJs ''m'')))) \<and> runner_ok (ejecutar_sentencia (nuevo_test_runner []) (Prueba ''t'' (Inl (ErrorJs ''m'')))) \<and>
   (\<exists>fs. length fs = testsFailed (ejecutar_sentencia (nuevo_test_runner []) (Prueba ''t'' (Inl (ErrorJs ''m'')))) \<and> errors (ejecutar_sentencia (nuevo_test_runner []) (Prueba ''t'' (Inl (ErrorJs ''m'')))) = map registro_error fs \<and>
         [l \<leftarrow> consola (ejecutar_sentencia (nuevo_test_runner []) (Prueba ''t'' (Inl (ErrorJs ''m'')))). fst l = Stderr] = concat (map lineas_error fs))"
proof -
  have a: "alcanzable (ejecutar_sentencia (nuevo_test_runner []) (Prueba ''t'' (Inl (ErrorJs ''m''))))" by (intro alcanzable.paso_sentencia alcanzable.inicio)
  show ?thesis using a alcanzable_runner_invariant [OF a] by blast
qed



end
