(* ===== verification/Js_Format.thy ===== *)
theory Js_Format
  imports Complex_Main Js_Number_Text
begin

text \<open>
  The two \<open>Number.prototype\<close> formatting routines the benchmark prints with.
  \<open>toLocaleString()\<close> without arguments formats for the host's default locale; the model
  is the en-US format (an optional minus sign, then the digits in groups of three
  separated by commas; \<open>Infinity\<close> prints as the infinity sign).
  \<open>toFixed(f)\<close> follows ECMA-262 (Number.prototype.toFixed) on the exact real value:
  the integer \<open>n\<close> with \<open>n / 10^f - x\<close> closest to zero, the larger one on a tie,
  printed with \<open>f\<close> digits after the point, and a minus sign for a negative \<open>x\<close>.
  The lemmas at the end read the printed text back: the grouped digits to the integer,
  the fixed-point text to a value within half a unit of its last place. The benchmark's
  report lines are read back with them.
\<close>

text \<open>A JavaScript number that may be \<open>Infinity\<close> (\<open>1000 / 0\<close>, \<open>Math.floor(Infinity)\<close>).\<close>

datatype numero_js = Finito int | Infinito

definition signo_infinito :: string where [utf8_defs]: "signo_infinito = [CHR 0xE2, CHR 0x88, CHR 0x9E]"

fun agrupar_miles :: "string \<Rightarrow> string" where
  "agrupar_miles s =
     (if length s \<le> 3 then s
      else agrupar_miles (take (length s - 3) s) @ CHR '','' # drop (length s - 3) s)"

declare agrupar_miles.simps [simp del]

fun toLocaleString :: "numero_js \<Rightarrow> string" where
  "toLocaleString (Finito i) =
     (if i < 0 then CHR ''-'' # agrupar_miles (digitos (nat (- i))) else agrupar_miles (digitos (nat i)))"
| "toLocaleString Infinito = signo_infinito"

definition redondeo_fijo :: "nat \<Rightarrow> real \<Rightarrow> int" where
  "redondeo_fijo f x = \<lfloor>x * 10 ^ f + 1 / 2\<rfloor>"

definition relleno_ceros :: "nat \<Rightarrow> string \<Rightarrow> string" where
  "relleno_ceros f m = (if length m \<le> f then replicate (f + 1 - length m) (CHR ''0'') @ m else m)"

definition cifras_fijas :: "nat \<Rightarrow> nat \<Rightarrow> string" where
  "cifras_fijas f n =
     (let m = relleno_ceros f (digitos n)
      in if f = 0 then m else take (length m - f) m @ CHR ''.'' # drop (length m - f) m)"

definition toFixed :: "nat \<Rightarrow> real \<Rightarrow> string" where
  "toFixed f x =
     (if x < 0 then CHR ''-'' # cifras_fijas f (nat (redondeo_fijo f (- x)))
      else cifras_fijas f (nat (redondeo_fijo f x)))"

text \<open>A reader of the text \<open>toFixed\<close> prints, for the statements.\<close>

definition leer_fijo :: "nat \<Rightarrow> string \<Rightarrow> int option" where
  "leer_fijo f s =
     (let (neg, t) = (case s of c # r \<Rightarrow> if c = CHR ''-'' then (True, r) else (False, s) | [] \<Rightarrow> (False, s));
          u = (if f = 0 then Some t
               else case dropWhile (\<lambda>c. c \<noteq> CHR ''.'') t of
                      c # d \<Rightarrow> if length d = f then Some (takeWhile (\<lambda>c. c \<noteq> CHR ''.'') t @ d) else None
                    | [] \<Rightarrow> None)
      in case u of None \<Rightarrow> None | Some v \<Rightarrow> map_option (\<lambda>n. if neg then - int n else int n) (leer_nat v))"

subsection \<open>Lemmas\<close>

lemma agrupar_miles_corta [simp]: "length s \<le> 3 \<Longrightarrow> agrupar_miles s = s"
  by (simp add: agrupar_miles.simps)

lemma agrupar_miles_larga:
  "3 < length s \<Longrightarrow>
     agrupar_miles s = agrupar_miles (take (length s - 3) s) @ CHR '','' # drop (length s - 3) s"
  by (simp add: agrupar_miles.simps [of s])

lemma filter_agrupar_miles:
  "CHR '','' \<notin> set s \<Longrightarrow> filter (\<lambda>c. c \<noteq> CHR '','') (agrupar_miles s) = s"
proof (induction s rule: agrupar_miles.induct)
  case (1 s)
  show ?case
  proof (cases "length s \<le> 3")
    case True
    with "1.prems" show ?thesis by (auto simp: filter_id_conv)
  next
    case False
    have "CHR '','' \<notin> set (take (length s - 3) s)" "CHR '','' \<notin> set (drop (length s - 3) s)"
      using "1.prems" by (auto dest: in_set_takeD in_set_dropD)
    moreover have "filter (\<lambda>c. c \<noteq> CHR '','') (drop (length s - 3) s) = drop (length s - 3) s"
      using "1.prems" by (auto simp: filter_id_conv dest: in_set_dropD)
    ultimately show ?thesis using "1.IH" False by (simp add: agrupar_miles_larga)
  qed
qed

lemma redondeo_fijo_cerca:
  "\<bar>of_int (redondeo_fijo f y) / 10 ^ f - y\<bar> \<le> 1 / (2 * 10 ^ f)"
proof -
  define z :: real where "z = y * 10 ^ f + 1 / 2"
  define r :: real where "r = of_int \<lfloor>z\<rfloor>"
  have r: "r \<le> z" "z < r + 1" unfolding r_def by (rule of_int_floor_le, rule real_of_int_floor_add_one_gt)
  have p: "(0::real) < 10 ^ f" by simp
  define w :: real where "w = y * 10 ^ f"
  have "\<bar>r - w\<bar> \<le> 1 / 2" using r unfolding z_def w_def [symmetric] by (simp only: abs_le_iff) linarith
  then have "\<bar>r - y * 10 ^ f\<bar> \<le> 1 / 2" by (simp add: w_def)
  then have "\<bar>r - y * 10 ^ f\<bar> / 10 ^ f \<le> (1 / 2) / 10 ^ f" using p by (intro divide_right_mono) simp_all
  moreover have "\<bar>r / 10 ^ f - y\<bar> = \<bar>r - y * 10 ^ f\<bar> / 10 ^ f"
    using p by (simp add: diff_divide_distrib abs_div_pos)
  moreover have "of_int (redondeo_fijo f y) = r" by (simp add: redondeo_fijo_def r_def z_def)
  moreover have "(1 / 2) / 10 ^ f = 1 / (2 * 10 ^ f :: real)" by simp
  ultimately show ?thesis by (simp only:)
qed

lemma redondeo_fijo_nonneg: "0 \<le> y \<Longrightarrow> 0 \<le> redondeo_fijo f y"
  unfolding redondeo_fijo_def by simp

lemma codigo_digito: "d < 10 \<Longrightarrow> of_char (digito d) = 48 + d"
  by (simp add: digito_def)

lemma codigo_relleno:
  assumes "c \<in> set (relleno_ceros f (digitos n))"
  shows "48 \<le> (of_char c :: nat) \<and> (of_char c :: nat) < 58"
proof -
  have "c = CHR ''0'' \<or> c \<in> set (digitos n)"
    using assms by (auto simp: relleno_ceros_def split: if_splits)
  then show ?thesis using set_digitos codigo_digito by fastforce
qed

lemma relleno_sin_signos:
  "c \<in> set (relleno_ceros f (digitos n)) \<Longrightarrow> c \<noteq> CHR ''-'' \<and> c \<noteq> CHR ''.''"
  using codigo_relleno by fastforce

lemma length_relleno: "f < length (relleno_ceros f (digitos n))"
  by (simp add: relleno_ceros_def)

lemma leer_digitos_ceros: "leer_digitos 0 (replicate k (CHR ''0'') @ s) = leer_digitos 0 s"
  by (induction k) (simp_all add: valor_digito_def)

lemma leer_nat_relleno: "leer_nat (relleno_ceros f (digitos n)) = Some n"
  using leer_digitos_ceros leer_nat_digitos
  by (simp add: relleno_ceros_def leer_nat_def)

lemma leer_fijo_cifras:
  "leer_fijo f (cifras_fijas f n) = Some (int n) \<and>
   leer_fijo f (CHR ''-'' # cifras_fijas f n) = Some (- int n)"
proof -
  define m where "m = relleno_ceros f (digitos n)"
  have len: "f < length m" and sig: "\<forall>c\<in>set m. c \<noteq> CHR ''-'' \<and> c \<noteq> CHR ''.''"
    and rd: "leer_nat m = Some n"
    using length_relleno relleno_sin_signos leer_nat_relleno unfolding m_def by blast+
  obtain c r where mc: "m = c # r" using len by (cases m) auto
  show ?thesis
  proof (cases "f = 0")
    case True
    then have "cifras_fijas f n = m" by (simp add: cifras_fijas_def m_def)
    then show ?thesis using True rd sig mc by (simp add: leer_fijo_def)
  next
    case False
    let ?a = "take (length m - f) m" and ?d = "drop (length m - f) m"
    have a: "\<forall>x\<in>set ?a. x \<noteq> CHR ''.''" using sig by (auto dest: in_set_takeD)
    have tw: "takeWhile (\<lambda>x. x \<noteq> CHR ''.'') (?a @ CHR ''.'' # ?d) = ?a"
      using a by (simp add: takeWhile_append2)
    have dw: "dropWhile (\<lambda>x. x \<noteq> CHR ''.'') (?a @ CHR ''.'' # ?d) = CHR ''.'' # ?d"
      using a by (simp add: dropWhile_append2)
    have ld: "length ?d = f" using len by simp
    have ad: "?a @ ?d = m" by simp
    have "?a = c # take (length m - f - 1) r" using len mc by (simp add: take_Cons')
    then have hd: "?a @ CHR ''.'' # ?d = c # (take (length m - f - 1) r @ CHR ''.'' # ?d)" by simp
    have "c \<noteq> CHR ''-''" using sig mc by simp
    moreover have "cifras_fijas f n = ?a @ CHR ''.'' # ?d" using False by (simp add: cifras_fijas_def m_def Let_def)
    ultimately show ?thesis
      using False tw dw ld ad rd by (simp add: leer_fijo_def hd del: append_take_drop_id)
  qed
qed

lemma filter_toLocaleString: "filter (\<lambda>c. c \<noteq> CHR '','') (toLocaleString (Finito i)) = cadena_numero i"
  using filter_agrupar_miles [OF comma_notin_digitos] by (simp add: cadena_numero_def)

lemma toLocaleString_roundtrip:
  "leer_entero (filter (\<lambda>c. c \<noteq> CHR '','') (toLocaleString (Finito i))) = Some i"
  by (simp only: filter_toLocaleString leer_cadena_numero)

lemma toFixed_within_half_unit:
  "\<exists>n. leer_fijo f (toFixed f x) = Some n \<and> \<bar>of_int n / 10 ^ f - x\<bar> \<le> 1 / (2 * 10 ^ f)"
proof (cases "x < 0")
  case True
  let ?r = "redondeo_fijo f (- x)"
  have r: "0 \<le> ?r" using True by (simp add: redondeo_fijo_nonneg)
  have "\<bar>of_int (- ?r) / 10 ^ f - x\<bar> = \<bar>of_int ?r / 10 ^ f - (- x)\<bar>" by (simp add: abs_minus_commute)
  then have "\<bar>of_int (- ?r) / 10 ^ f - x\<bar> \<le> 1 / (2 * 10 ^ f)" using redondeo_fijo_cerca [of f "- x"] by simp
  with True r show ?thesis using leer_fijo_cifras [of f "nat ?r"]
    by (intro exI [of _ "- ?r"]) (simp add: toFixed_def)
next
  case False
  let ?r = "redondeo_fijo f x"
  have r: "0 \<le> ?r" using False by (simp add: redondeo_fijo_nonneg)
  with False show ?thesis using leer_fijo_cifras [of f "nat ?r"] redondeo_fijo_cerca [of f x]
    by (intro exI [of _ ?r]) (simp add: toFixed_def)
qed

end
