(* ===== verification/Benchmark.thy ===== *)
theory Benchmark
  imports Js_Format Kadane
begin

text \<open>
  The driver \<open>src/maximaGanancia.bench.ts\<close>: the class \<open>BenchmarkRunner\<close> with
  \<open>generarArrayAleatorio\<close>, \<open>ejecutarBenchmark\<close> and \<open>ejecutar\<close>, and the module's
  top-level \<open>new BenchmarkRunner().ejecutar()\<close>. Its inputs from the runtime are the
  successive values of \<open>Math.random()\<close> and of \<open>performance.now()\<close>, modelled as two
  streams of reals read through counters of the environment record \<open>entorno_bench\<close>,
  which also counts the calls of \<open>maximaGanancia\<close> and holds the lines written to the
  console. A call of \<open>maximaGanancia\<close> that throws ends the run with its error
  (\<open>Inl\<close>), through \<open>seguir\<close>. Each benchmark returns the values it prints as a record
  \<open>informe\<close>. A thrown error carries the runtime state at the throw, so the lines
  printed before an uncaught exception stay observable. Arithmetic on the random and clock values rs exact real arithmetic.
\<close>

record entorno_bench =
  aleatorios :: "nat \<Rightarrow> real"
  usados :: nat
  reloj :: "nat \<Rightarrow> real"
  lecturas :: nat
  llamadas :: nat
  salida :: "string list"

text \<open>The outcome of a step that may throw: the error together with the state at the
  throw, or the normal result.\<close>

type_synonym 'a lanza_bench = "(error \<times> entorno_bench) + 'a"

record informe =
  nombre :: string
  tamano :: nat
  iteraciones_usadas :: nat
  tiempo_total :: real
  tiempo_promedio :: real
  operaciones_por_segundo :: numero_js
  resultado :: int

definition iteraciones_por_defecto :: nat where
  "iteraciones_por_defecto = 10000"

definition math_random :: "entorno_bench \<Rightarrow> real \<times> entorno_bench" where
  "math_random env = (aleatorios env (usados env), env\<lparr>usados := Suc (usados env)\<rparr>)"

definition performance_now :: "entorno_bench \<Rightarrow> real \<times> entorno_bench" where
  "performance_now env = (reloj env (lecturas env), env\<lparr>lecturas := Suc (lecturas env)\<rparr>)"

definition console_log :: "string \<Rightarrow> entorno_bench \<Rightarrow> entorno_bench" where
  "console_log s env = env\<lparr>salida := salida env @ [s]\<rparr>"

text \<open>
  \<open>Array.from({ length: size }, () => Math.floor(Math.random() * (max - min + 1)) + min)\<close>:
  the callback runs for the indices in increasing order, one random value each.
\<close>

fun generarArrayAleatorio :: "nat \<Rightarrow> int \<Rightarrow> int \<Rightarrow> entorno_bench \<Rightarrow> parcelas \<times> entorno_bench" where
  "generarArrayAleatorio 0 minimo maximo env = ([], env)"
| "generarArrayAleatorio (Suc n) minimo maximo env =
     (let (r, env1) = math_random env;
          x = \<lfloor>r * of_int (maximo - minimo + 1)\<rfloor> + minimo;
          (xs, env2) = generarArrayAleatorio n minimo maximo env1
      in (x # xs, env2))"

text \<open>One call \<open>maximaGanancia([...parcelas])\<close> (the spread copies the array): its value,
  or the error it throws.\<close>

definition llamar :: "parcelas \<Rightarrow> entorno_bench \<Rightarrow> (int \<times> entorno_bench) lanza_bench" where
  "llamar p env =
     (let env1 = env\<lparr>llamadas := Suc (llamadas env)\<rparr>
      in case maximaGanancia (Arreglo p) of Inl e \<Rightarrow> Inl (e, env1) | Inr v \<Rightarrow> Inr (v, env1))"

text \<open>\<open>for (let i = 0; i < n; i++) maximaGanancia([...parcelas]);\<close>\<close>

fun repetir_llamadas :: "nat \<Rightarrow> parcelas \<Rightarrow> entorno_bench \<Rightarrow> entorno_bench lanza_bench" where
  "repetir_llamadas 0 p env = Inr env"
| "repetir_llamadas (Suc n) p env = seguir (llamar p env) (\<lambda>(_, env1). repetir_llamadas n p env1)"

text \<open>\<open>Math.floor(1000 / tiempoPromedio)\<close>: division by a zero average gives \<open>Infinity\<close>.\<close>

definition operaciones_js :: "real \<Rightarrow> numero_js" where
  "operaciones_js t = (if t = 0 then Infinito else Finito \<lfloor>1000 / t\<rfloor>)"

definition ejecutarBenchmark ::
  "string \<Rightarrow> parcelas \<Rightarrow> nat \<Rightarrow> entorno_bench \<Rightarrow> (informe \<times> entorno_bench) lanza_bench" where
  "ejecutarBenchmark nombre_caso parcelas iteraciones env =
     seguir (repetir_llamadas 100 parcelas env) (\<lambda>env1.
     (let (inicio, env2) = performance_now env1
      in seguir (repetir_llamadas iteraciones parcelas env2) (\<lambda>env3.
         (let (fin, env4) = performance_now env3;
              tiempoTotal = fin - inicio;
              tiempoPromedio = tiempoTotal / real iteraciones;
              operacionesPorSegundo = operaciones_js tiempoPromedio;
              env5 = fold console_log
                       [nueva_linea @ emoji_grafico @ '' '' @ nombre_caso,
                        ''   Tama'' @ n_tilde @ ''o del array: '' @ cadena_numero (int (length parcelas)),
                        ''   Iteraciones: '' @ toLocaleString (Finito (int iteraciones)),
                        ''   Tiempo total: '' @ toFixed 2 tiempoTotal @ '' ms'',
                        ''   Tiempo promedio: '' @ toFixed 4 tiempoPromedio @ '' ms'',
                        ''   Operaciones/seg: '' @ toLocaleString operacionesPorSegundo] env4
          in seguir (llamar parcelas env5) (\<lambda>(r, env6).
               Inr (\<lparr>nombre = nombre_caso, tamano = length parcelas, iteraciones_usadas = iteraciones,
                     tiempo_total = tiempoTotal, tiempo_promedio = tiempoPromedio,
                     operaciones_por_segundo = operacionesPorSegundo, resultado = r\<rparr>,
                    console_log (''   Resultado: '' @ cadena_numero r) env6))))))"

text \<open>The statements of \<open>ejecutar\<close>: a \<open>console.log\<close>, or a call of
  \<open>ejecutarBenchmark\<close> whose array is generated at random or given.\<close>

datatype origen = Aleatorio nat int int | Fijo parcelas

datatype instruccion_bench = Imprimir string | Medir string origen nat

text \<open>\<open>Array.from({ length: n }, (_, i) => f(i))\<close>\<close>

definition desde_indices :: "nat \<Rightarrow> (nat \<Rightarrow> int) \<Rightarrow> parcelas" where
  "desde_indices n f = map f [0..<n]"

definition programa_bench :: "instruccion_bench list" where
  "programa_bench =
     [Imprimir (emoji_diana @ '' BENCHMARKS - Algoritmo de Kadane (M'' @ a_agudo @ ''xima Ganancia)''),
      Imprimir linea_igual,
      Medir (''Array peque'' @ n_tilde @ ''o (10 elementos)'') (Aleatorio 10 (-50) 50) iteraciones_por_defecto,
      Medir ''Array mediano (100 elementos)'' (Aleatorio 100 (-100) 100) iteraciones_por_defecto,
      Medir ''Array grande (1,000 elementos)'' (Aleatorio 1000 (-500) 500) iteraciones_por_defecto,
      Medir ''Array muy grande (10,000 elementos)'' (Aleatorio 10000 (-1000) 1000) 1000,
      Medir ''Array extremo (100,000 elementos)'' (Aleatorio 100000 (-10000) 10000) 100,
      Imprimir (nueva_linea @ linea_igual),
      Imprimir (emoji_calabaza @ '' CASOS ESPEC'' @ I_agudo @ ''FICOS DEL ENUNCIADO''),
      Imprimir linea_igual,
      Medir ''Caso del huerto maldito'' (Fijo [2, -5, 8, -2, 4, -10, 3, 1]) iteraciones_por_defecto,
      Medir ''Caso con todos positivos'' (Fijo [1, 2, 3, 4]) iteraciones_por_defecto,
      Medir ''Caso con todos negativos'' (Fijo [-1, -2, -3, -4]) iteraciones_por_defecto,
      Medir ''Caso con zona maldita'' (Fijo [8, 1, -100, 2, 5]) iteraciones_por_defecto,
      Imprimir (nueva_linea @ linea_igual),
      Imprimir (emoji_advertencia @ selector_emoji @ ''  CASOS EXTREMOS''),
      Imprimir linea_igual,
      Medir ''Best case: Todos positivos (1,000 elementos)''
        (Fijo (desde_indices 1000 (\<lambda>i. int i + 1))) iteraciones_por_defecto,
      Medir ''Worst case: Todos negativos (1,000 elementos)''
        (Fijo (desde_indices 1000 (\<lambda>i. - (int i + 1)))) iteraciones_por_defecto,
      Medir (''Patr'' @ o_agudo @ ''n alternado (1,000 elementos)'')
        (Fijo (desde_indices 1000 (\<lambda>i. if i mod 2 = 0 then 10 else -5))) iteraciones_por_defecto,
      Imprimir (nueva_linea @ linea_igual),
      Imprimir (emoji_tendencia @ '' AN'' @ A_agudo @ ''LISIS DE COMPLEJIDAD''),
      Imprimir linea_igual,
      Imprimir (marca_verde @ '' Complejidad temporal: O(n) - Lineal''),
      Imprimir (marca_verde @ '' Complejidad espacial: O(1) - Constante''),
      Imprimir (marca_verde @ '' Una sola pasada por el array''),
      Imprimir (marca_verde @ '' Sin recursi'' @ o_agudo @ ''n ni estructuras auxiliares''),
      Imprimir linea_igual]"

text \<open>Evaluating the arguments (generating the array) and then running the benchmark.\<close>

fun ejecutar_instruccion ::
  "instruccion_bench \<Rightarrow> entorno_bench \<Rightarrow> (informe list \<times> entorno_bench) lanza_bench" where
  "ejecutar_instruccion (Imprimir s) env = Inr ([], console_log s env)"
| "ejecutar_instruccion (Medir n (Aleatorio tam minimo maximo) it) env =
     (let (p, env1) = generarArrayAleatorio tam minimo maximo env
      in seguir (ejecutarBenchmark n p it env1) (\<lambda>(i, env2). Inr ([i], env2)))"
| "ejecutar_instruccion (Medir n (Fijo p) it) env =
     seguir (ejecutarBenchmark n p it env) (\<lambda>(i, env1). Inr ([i], env1))"

fun ejecutar_instrucciones ::
  "instruccion_bench list \<Rightarrow> entorno_bench \<Rightarrow> (informe list \<times> entorno_bench) lanza_bench" where
  "ejecutar_instrucciones [] env = Inr ([], env)"
| "ejecutar_instrucciones (c # cs) env =
     seguir (ejecutar_instruccion c env) (\<lambda>(rs1, env1).
       seguir (ejecutar_instrucciones cs env1) (\<lambda>(rs2, env2). Inr (rs1 @ rs2, env2)))"

definition ejecutar :: "entorno_bench \<Rightarrow> (informe list \<times> entorno_bench) lanza_bench" where
  "ejecutar env = ejecutar_instrucciones programa_bench env"

text \<open>The module's last lines: a fresh runner, its \<open>ejecutar()\<close>, with the runtime's random
  and clock streams and an empty console.\<close>

definition main_bench :: "(nat \<Rightarrow> real) \<Rightarrow> (nat \<Rightarrow> real) \<Rightarrow> (informe list \<times> entorno_bench) lanza_bench" where
  "main_bench r c =
     ejecutar \<lparr>aleatorios = r, usados = 0, reloj = c, lecturas = 0, llamadas = 0, salida = []\<rparr>"

text \<open>
  Observations for the statements (not code): which statements are benchmarks, when a
  benchmark's array is non-empty (a random one of positive size), what its report must
  hold, and what each statement costs (calls, random values, console lines).
\<close>

fun es_medicion :: "instruccion_bench \<Rightarrow> bool" where
  "es_medicion (Imprimir _) = False"
| "es_medicion (Medir _ _ _) = True"

fun medida_ok :: "instruccion_bench \<Rightarrow> bool" where
  "medida_ok (Imprimir _) = True"
| "medida_ok (Medir _ (Aleatorio t lo hi) _) = (0 < t \<and> lo \<le> hi \<and> 0 \<le> hi)"
| "medida_ok (Medir _ (Fijo p) _) = (p \<noteq> [])"

fun resultado_ok :: "bool \<Rightarrow> instruccion_bench \<Rightarrow> informe \<Rightarrow> bool" where
  "resultado_ok b (Imprimir _) i = False"
| "resultado_ok b (Medir n (Aleatorio t lo hi) it) i =
     (nombre i = n \<and> tamano i = t \<and> iteraciones_usadas i = it \<and>
      (b \<longrightarrow> lo \<le> resultado i \<and> resultado i \<le> int t * hi))"
| "resultado_ok b (Medir n (Fijo p) it) i =
     (nombre i = n \<and> tamano i = length p \<and> iteraciones_usadas i = it \<and> resultado i = suma_maxima p)"

fun llamadas_de :: "instruccion_bench \<Rightarrow> nat" where
  "llamadas_de (Imprimir _) = 0"
| "llamadas_de (Medir _ _ it) = 101 + it"

fun aleatorios_de :: "instruccion_bench \<Rightarrow> nat" where
  "aleatorios_de (Medir _ (Aleatorio t _ _) _) = t"
| "aleatorios_de _ = 0"

fun lineas_de :: "instruccion_bench \<Rightarrow> nat" where
  "lineas_de (Imprimir _) = 1"
| "lineas_de (Medir _ _ _) = 7"

subsection \<open>Lemmas\<close>

lemma generarArrayAleatorio_map:
  "generarArrayAleatorio n minimo maximo env =
     (map (\<lambda>i. \<lfloor>aleatorios env (usados env + i) * of_int (maximo - minimo + 1)\<rfloor> + minimo) [0..<n],
      env\<lparr>usados := usados env + n\<rparr>)"
proof (induction n arbitrary: env)
  case 0
  then show ?case by simp
next
  case (Suc n)
  show ?case
    by (simp add: Suc.IH math_random_def map_upt_Suc del: upt_Suc)
qed

lemma floor_en_rango:
  assumes "0 \<le> (r :: real)" "r < 1" "(minimo :: int) \<le> maximo"
  shows "minimo \<le> \<lfloor>r * of_int (maximo - minimo + 1)\<rfloor> + minimo \<and>
         \<lfloor>r * of_int (maximo - minimo + 1)\<rfloor> + minimo \<le> maximo"
proof -
  let ?k = "maximo - minimo + 1"
  have k: "1 \<le> ?k" using assms(3) by simp
  have "0 \<le> r * of_int ?k" using assms(1) k by simp
  then have lo: "0 \<le> \<lfloor>r * of_int ?k\<rfloor>" by simp
  have kr: "(0::real) < of_int ?k" using k by linarith
  have "r * of_int ?k < 1 * of_int ?k"
    using assms(2) kr by (intro mult_strict_right_mono)
  then have "r * of_int ?k < of_int ?k" by simp
  then have "\<lfloor>r * of_int ?k\<rfloor> < ?k" by (simp only: floor_less_iff)
  with lo show ?thesis by linarith
qed

lemma generar_en_rango:
  assumes "\<forall>k. 0 \<le> aleatorios env k \<and> aleatorios env k < 1" and "minimo \<le> maximo"
  shows "length (fst (generarArrayAleatorio n minimo maximo env)) = n \<and>
         (\<forall>x\<in>set (fst (generarArrayAleatorio n minimo maximo env)). minimo \<le> x \<and> x \<le> maximo)"
  using assms floor_en_rango by (auto simp: generarArrayAleatorio_map)

lemma sum_positivos_le: "(\<forall>x\<in>set xs. x \<le> b) \<Longrightarrow> 0 \<le> b \<Longrightarrow> sum_list (map (max 0) xs) \<le> int (length xs) * (b :: int)"
  by (induction xs) (auto simp: algebra_simps)

lemma suma_maxima_en_rango:
  assumes "p \<noteq> []" "\<forall>x\<in>set p. lo \<le> x \<and> x \<le> hi" "0 \<le> hi"
  shows "lo \<le> suma_maxima p \<and> suma_maxima p \<le> int (length p) * hi"
proof -
  have "lo \<le> p ! 0" using assms(1,2) by (simp add: hd_conv_nth [symmetric])
  also have "p ! 0 \<le> suma_maxima p" using assms(1) by (simp add: elem_le_suma_maxima)
  finally have lo: "lo \<le> suma_maxima p" .
  have "suma_maxima p \<le> sum_list (map (max 0) p)" using assms(1) by (rule suma_maxima_le_positives)
  also have "\<dots> \<le> int (length p) * hi" using sum_positivos_le [of p hi] assms(2,3) by auto
  finally show ?thesis using lo by simp
qed

lemma llamar_ne: "p \<noteq> [] \<Longrightarrow> llamar p env = Inr (suma_maxima p, env\<lparr>llamadas := Suc (llamadas env)\<rparr>)"
  by (simp add: llamar_def maximaGanancia_calcular calcular_Arreglo)

lemma llamar_vacio: "llamar [] env = Inl (Error mensaje_vacio, env\<lparr>llamadas := Suc (llamadas env)\<rparr>)"
  by (simp add: llamar_def maximaGanancia_calcular calcular_vacio)

lemma repetir_llamadas_ne:
  "p \<noteq> [] \<Longrightarrow> repetir_llamadas n p env = Inr (env\<lparr>llamadas := llamadas env + n\<rparr>)"
  by (induction n arbitrary: env) (simp_all add: llamar_ne)

lemma ejecutarBenchmark_ne:
  assumes "p \<noteq> []"
  shows "ejecutarBenchmark nom p it env =
    (let T = reloj env (Suc (lecturas env)) - reloj env (lecturas env);
         i = \<lparr>nombre = nom, tamano = length p, iteraciones_usadas = it, tiempo_total = T,
              tiempo_promedio = T / real it, operaciones_por_segundo = operaciones_js (T / real it),
              resultado = suma_maxima p\<rparr>
     in Inr (i, env\<lparr>lecturas := lecturas env + 2, llamadas := llamadas env + 101 + it,
                    salida := salida env @
                      [nueva_linea @ emoji_grafico @ '' '' @ nom,
                       ''   Tama'' @ n_tilde @ ''o del array: '' @ cadena_numero (int (length p)),
                       ''   Iteraciones: '' @ toLocaleString (Finito (int it)),
                       ''   Tiempo total: '' @ toFixed 2 T @ '' ms'',
                       ''   Tiempo promedio: '' @ toFixed 4 (T / real it) @ '' ms'',
                       ''   Operaciones/seg: '' @ toLocaleString (operaciones_js (T / real it)),
                       ''   Resultado: '' @ cadena_numero (suma_maxima p)]\<rparr>))"
  using assms
  by (simp add: ejecutarBenchmark_def repetir_llamadas_ne llamar_ne performance_now_def
      console_log_def Let_def)

lemma ejecutarBenchmark_vacio:
  "ejecutarBenchmark nom [] it env = Inl (Error mensaje_vacio, env\<lparr>llamadas := Suc (llamadas env)\<rparr>)"
  by (simp add: ejecutarBenchmark_def numeral_eq_Suc llamar_vacio)

lemma ejecutar_instruccion_ok:
  assumes "medida_ok c"
  shows "\<exists>rs env'. ejecutar_instruccion c env = Inr (rs, env') \<and>
     list_all2 (resultado_ok (\<forall>k. 0 \<le> aleatorios env k \<and> aleatorios env k < 1)) (filter es_medicion [c]) rs \<and>
     aleatorios env' = aleatorios env \<and> reloj env' = reloj env \<and>
     llamadas env' = llamadas env + llamadas_de c \<and>
     lecturas env' = lecturas env + (if es_medicion c then 2 else 0) \<and>
     usados env' = usados env + aleatorios_de c \<and>
     length (salida env') = length (salida env) + lineas_de c"
proof (cases c)
  case (Imprimir s)
  then show ?thesis by (simp add: console_log_def)
next
  case (Medir n org it)
  show ?thesis
  proof (cases org)
    case (Aleatorio t lo hi)
    let ?g = "generarArrayAleatorio t lo hi env"
    have ok: "0 < t" "lo \<le> hi" "0 \<le> hi" using assms Medir Aleatorio by simp_all
    have len: "length (fst ?g) = t" by (simp add: generarArrayAleatorio_map)
    then have ne: "fst ?g \<noteq> []" using ok by auto
    have rng: "(\<forall>k. 0 \<le> aleatorios env k \<and> aleatorios env k < 1) \<longrightarrow>
               lo \<le> suma_maxima (fst ?g) \<and> suma_maxima (fst ?g) \<le> int t * hi"
      using suma_maxima_en_rango [OF ne _ ok(3)] generar_en_rango [of env lo hi t] ok(2) len by auto
    have "snd ?g = env\<lparr>usados := usados env + t\<rparr>" by (simp add: generarArrayAleatorio_map)
    then show ?thesis using Medir Aleatorio ne rng len
      by (simp add: split_def ejecutarBenchmark_ne Let_def)
  next
    case (Fijo p)
    then show ?thesis using assms Medir by (simp add: ejecutarBenchmark_ne Let_def)
  qed
qed

lemma ejecutar_instrucciones_ok:
  assumes "list_all medida_ok cs"
  shows "\<exists>rs env'. ejecutar_instrucciones cs env = Inr (rs, env') \<and>
     list_all2 (resultado_ok (\<forall>k. 0 \<le> aleatorios env k \<and> aleatorios env k < 1)) (filter es_medicion cs) rs \<and>
     aleatorios env' = aleatorios env \<and> reloj env' = reloj env \<and>
     llamadas env' = llamadas env + sum_list (map llamadas_de cs) \<and>
     lecturas env' = lecturas env + 2 * length (filter es_medicion cs) \<and>
     usados env' = usados env + sum_list (map aleatorios_de cs) \<and>
     length (salida env') = length (salida env) + sum_list (map lineas_de cs)"
  using assms
proof (induction cs arbitrary: env)
  case Nil
  then show ?case by simp
next
  case (Cons c cs)
  obtain rs1 env1 where c: "ejecutar_instruccion c env = Inr (rs1, env1)"
    and r1: "list_all2 (resultado_ok (\<forall>k. 0 \<le> aleatorios env k \<and> aleatorios env k < 1)) (filter es_medicion [c]) rs1"
    and e1: "aleatorios env1 = aleatorios env" "reloj env1 = reloj env"
      "llamadas env1 = llamadas env + llamadas_de c"
      "lecturas env1 = lecturas env + (if es_medicion c then 2 else 0)"
      "usados env1 = usados env + aleatorios_de c"
      "length (salida env1) = length (salida env) + lineas_de c"
    using ejecutar_instruccion_ok [of c env] Cons.prems by auto
  obtain rs2 env2 where cs: "ejecutar_instrucciones cs env1 = Inr (rs2, env2)"
    and r2: "list_all2 (resultado_ok (\<forall>k. 0 \<le> aleatorios env1 k \<and> aleatorios env1 k < 1)) (filter es_medicion cs) rs2"
    and e2: "aleatorios env2 = aleatorios env1" "reloj env2 = reloj env1"
      "llamadas env2 = llamadas env1 + sum_list (map llamadas_de cs)"
      "lecturas env2 = lecturas env1 + 2 * length (filter es_medicion cs)"
      "usados env2 = usados env1 + sum_list (map aleatorios_de cs)"
      "length (salida env2) = length (salida env1) + sum_list (map lineas_de cs)"
    using Cons.IH [of env1] Cons.prems by auto
  have len: "length rs1 = length (filter es_medicion [c])" using r1 by (simp add: list_all2_lengthD)
  have "list_all2 (resultado_ok (\<forall>k. 0 \<le> aleatorios env k \<and> aleatorios env k < 1))
          (filter es_medicion [c] @ filter es_medicion cs) (rs1 @ rs2)"
    using r1 r2 e1(1) by (intro list_all2_appendI) simp_all
  then show ?case using c cs e1 e2
    by (intro exI [of _ "rs1 @ rs2"] exI [of _ env2]) (cases "es_medicion c"; simp)
qed


lemma desde_indices_Suc: "desde_indices (Suc n) f = desde_indices n f @ [f n]"
  by (simp add: desde_indices_def)

lemma desde_indices_ne: "0 < n \<Longrightarrow> desde_indices n f \<noteq> []"
  by (simp add: desde_indices_def)

lemma suma_ascendente: "2 * sum_list (map (\<lambda>i. int i + 1) [0..<n]) = int n * (int n + 1)"
  by (induction n) (simp_all add: algebra_simps)

lemma suma_maxima_ascendente:
  "0 < n \<Longrightarrow> suma_maxima (desde_indices n (\<lambda>i. int i + 1)) = int n * (int n + 1) div 2"
  using suma_ascendente [of n] suma_maxima_nonneg [of "desde_indices n (\<lambda>i. int i + 1)"]
  by (simp add: desde_indices_def)

lemma suma_maxima_descendente:
  assumes "0 < n"
  shows "suma_maxima (desde_indices n (\<lambda>i. - (int i + 1))) = -1"
proof -
  have "Max (set (desde_indices n (\<lambda>i. - (int i + 1)))) = -1"
    using assms by (intro Max_eqI) (auto simp: desde_indices_def image_iff intro!: bexI [of _ 0])
  then show ?thesis
    using assms suma_maxima_nonpos [of "desde_indices n (\<lambda>i. - (int i + 1))"]
    by (simp add: desde_indices_ne) (auto simp: desde_indices_def)
qed

lemma alternado_cerrado:
  "max_final (desde_indices (2 * k + 1) (\<lambda>i. if i mod 2 = 0 then 10 else -5)) = 5 * int k + 10 \<and>
   suma_maxima (desde_indices (2 * k + 1) (\<lambda>i. if i mod 2 = 0 then 10 else -5)) = 5 * int k + 10 \<and>
   max_final (desde_indices (2 * k + 2) (\<lambda>i. if i mod 2 = 0 then 10 else -5)) = 5 * int k + 5 \<and>
   suma_maxima (desde_indices (2 * k + 2) (\<lambda>i. if i mod 2 = 0 then 10 else -5)) = 5 * int k + 10"
proof (induction k)
  case 0
  have "max_final [10, -5] = 5" "suma_maxima [10, -5] = 10" by code_simp+
  then show ?case
    by (simp add: desde_indices_def numeral_2_eq_2)
next
  case (Suc k)
  let ?f = "\<lambda>i::nat. if i mod 2 = 0 then (10::int) else -5"
  let ?A = "desde_indices (2 * k + 2) ?f"
  let ?B = "?A @ [10]"
  have A: "max_final ?A = 5 * int k + 5" "suma_maxima ?A = 5 * int k + 10"
    using Suc.IH by simp_all
  have neA: "?A \<noteq> []" and neB: "?B \<noteq> []" by (simp_all add: desde_indices_ne)
  have f1: "?f (2 * k + 2) = 10" and f2: "?f (2 * k + 3) = -5" by presburger+
  have B: "desde_indices (2 * Suc k + 1) ?f = ?B"
    using desde_indices_Suc [of "2 * k + 2" ?f] f1 by simp
  have C: "desde_indices (2 * Suc k + 2) ?f = ?B @ [-5]"
    using desde_indices_Suc [of "2 * k + 3" ?f] B f2 by (simp add: numeral_3_eq_3)
  have mB: "max_final ?B = 5 * int (Suc k) + 10"
    using max_final_snoc [OF neA, of 10] A by simp
  have sB: "suma_maxima ?B = 5 * int (Suc k) + 10"
    using suma_maxima_snoc [OF neA, of 10] mB A by simp
  have mC: "max_final (?B @ [-5]) = 5 * int (Suc k) + 5"
    using max_final_snoc [OF neB, of "-5"] mB by simp
  have sC: "suma_maxima (?B @ [-5]) = 5 * int (Suc k) + 10"
    using suma_maxima_snoc [OF neB, of "-5"] mC sB by simp
  show ?case unfolding B C using mB sB mC sC by simp
qed


lemma programa_ok: "list_all medida_ok programa_bench"
  by (simp add: programa_bench_def desde_indices_ne)

lemma medidas_programa:
  "filter es_medicion programa_bench =
     [Medir (''Array peque'' @ n_tilde @ ''o (10 elementos)'') (Aleatorio 10 (-50) 50) iteraciones_por_defecto,
      Medir ''Array mediano (100 elementos)'' (Aleatorio 100 (-100) 100) iteraciones_por_defecto,
      Medir ''Array grande (1,000 elementos)'' (Aleatorio 1000 (-500) 500) iteraciones_por_defecto,
      Medir ''Array muy grande (10,000 elementos)'' (Aleatorio 10000 (-1000) 1000) 1000,
      Medir ''Array extremo (100,000 elementos)'' (Aleatorio 100000 (-10000) 10000) 100,
      Medir ''Caso del huerto maldito'' (Fijo [2, -5, 8, -2, 4, -10, 3, 1]) iteraciones_por_defecto,
      Medir ''Caso con todos positivos'' (Fijo [1, 2, 3, 4]) iteraciones_por_defecto,
      Medir ''Caso con todos negativos'' (Fijo [-1, -2, -3, -4]) iteraciones_por_defecto,
      Medir ''Caso con zona maldita'' (Fijo [8, 1, -100, 2, 5]) iteraciones_por_defecto,
      Medir ''Best case: Todos positivos (1,000 elementos)''
        (Fijo (desde_indices 1000 (\<lambda>i. int i + 1))) iteraciones_por_defecto,
      Medir ''Worst case: Todos negativos (1,000 elementos)''
        (Fijo (desde_indices 1000 (\<lambda>i. - (int i + 1)))) iteraciones_por_defecto,
      Medir (''Patr'' @ o_agudo @ ''n alternado (1,000 elementos)'')
        (Fijo (desde_indices 1000 (\<lambda>i. if i mod 2 = 0 then 10 else -5))) iteraciones_por_defecto]"
  by (simp add: programa_bench_def)

lemma recursos_programa:
  "sum_list (map llamadas_de programa_bench) = 102312"
  "sum_list (map aleatorios_de programa_bench) = 111110"
  "length (filter es_medicion programa_bench) = 12"
  "sum_list (map lineas_de programa_bench) = 100"
  by (simp_all add: programa_bench_def iteraciones_por_defecto_def)

lemma suma_maxima_fijos:
  "suma_maxima [2, -5, 8, -2, 4, -10, 3, 1] = 10" "suma_maxima [1, 2, 3, 4] = 10"
  "suma_maxima [-1, -2, -3, -4] = -1" "suma_maxima [8, 1, -100, 2, 5] = 9"
  "suma_maxima (desde_indices 1000 (\<lambda>i. int i + 1)) = 500500"
  "suma_maxima (desde_indices 1000 (\<lambda>i. - (int i + 1))) = -1"
  "suma_maxima (desde_indices 1000 (\<lambda>i. - int i - 1)) = -1"
  "suma_maxima (desde_indices 1000 (\<lambda>i. if i mod 2 = 0 then 10 else -5)) = 2505"
proof -
  show "suma_maxima [2, -5, 8, -2, 4, -10, 3, 1] = 10" "suma_maxima [1, 2, 3, 4] = 10"
    "suma_maxima [-1, -2, -3, -4] = -1" "suma_maxima [8, 1, -100, 2, 5] = 9" by code_simp+
  have n: "0 < (1000::nat)" by simp
  show "suma_maxima (desde_indices 1000 (\<lambda>i. int i + 1)) = 500500"
    using suma_maxima_ascendente [OF n] by simp
  show d: "suma_maxima (desde_indices 1000 (\<lambda>i. - (int i + 1))) = -1"
    using suma_maxima_descendente [OF n] by (simp only:)
  then show "suma_maxima (desde_indices 1000 (\<lambda>i. - int i - 1)) = -1" by simp
  show "suma_maxima (desde_indices 1000 (\<lambda>i. if i mod 2 = 0 then 10 else -5)) = 2505"
    using alternado_cerrado [of 499] by simp
qed

lemma ejecutar_programa:
  "\<exists>rs env'. ejecutar env = Inr (rs, env') \<and>
     list_all2 (resultado_ok (\<forall>k. 0 \<le> aleatorios env k \<and> aleatorios env k < 1))
       (filter es_medicion programa_bench) rs \<and>
     llamadas env' = llamadas env + 102312 \<and> lecturas env' = lecturas env + 24 \<and>
     usados env' = usados env + 111110 \<and> length (salida env') = length (salida env) + 100"
proof -
  obtain rs env' where r: "ejecutar_instrucciones programa_bench env = Inr (rs, env')"
    and a: "list_all2 (resultado_ok (\<forall>k. 0 \<le> aleatorios env k \<and> aleatorios env k < 1))
              (filter es_medicion programa_bench) rs"
    and e: "llamadas env' = llamadas env + sum_list (map llamadas_de programa_bench)"
      "lecturas env' = lecturas env + 2 * length (filter es_medicion programa_bench)"
      "usados env' = usados env + sum_list (map aleatorios_de programa_bench)"
      "length (salida env') = length (salida env) + sum_list (map lineas_de programa_bench)"
    using ejecutar_instrucciones_ok [OF programa_ok, of env] by blast
  then show ?thesis using r a recursos_programa by (simp add: ejecutar_def)
qed

section \<open>Properties of the benchmark driver\<close>

text \<open>
  C18. Bounds of \<open>generarArrayAleatorio\<close>: when \<open>Math.random()\<close> yields values in
  \<open>[0, 1)\<close> and \<open>min \<le> max\<close>, it returns \<open>size\<close> integers, each within
  \<open>[min, max]\<close>, and consumes exactly \<open>size\<close> random values.
\<close>
theorem generarArrayAleatorio_bounds:
  assumes "\<forall>k. 0 \<le> aleatorios env k \<and> aleatorios env k < 1" and "minimo \<le> maximo"
  shows "length (fst (generarArrayAleatorio n minimo maximo env)) = n \<and>
         (\<forall>x\<in>set (fst (generarArrayAleatorio n minimo maximo env)). minimo \<le> x \<and> x \<le> maximo) \<and>
         usados (snd (generarArrayAleatorio n minimo maximo env)) = usados env + n"
  using generar_en_rango [OF assms] by (simp add: generarArrayAleatorio_map)

theorem generarArrayAleatorio_bounds_witness:
  "length (fst (generarArrayAleatorio 3 (-50) 50 \<lparr>aleatorios = \<lambda>_. 1 / 2, usados = 0, reloj = \<lambda>_. 0, lecturas = 0, llamadas = 0, salida = []\<rparr>)) = 3 \<and>
   list_all (\<lambda>x. -50 \<le> x \<and> x \<le> 50)
     (fst (generarArrayAleatorio 3 (-50) 50 \<lparr>aleatorios = \<lambda>_. 1 / 2, usados = 0, reloj = \<lambda>_. 0, lecturas = 0, llamadas = 0, salida = []\<rparr>)) \<and>
   usados (snd (generarArrayAleatorio 3 (-50) 50 \<lparr>aleatorios = \<lambda>_. 1 / 2, usados = 0, reloj = \<lambda>_. 0, lecturas = 0, llamadas = 0, salida = []\<rparr>)) = 0 + 3"
proof -
  have "\<forall>k. 0 \<le> aleatorios \<lparr>aleatorios = \<lambda>_. 1 / 2 :: real, usados = 0, reloj = \<lambda>_. 0, lecturas = 0, llamadas = 0, salida = []\<rparr> k \<and>
            aleatorios \<lparr>aleatorios = \<lambda>_. 1 / 2 :: real, usados = 0, reloj = \<lambda>_. 0, lecturas = 0, llamadas = 0, salida = []\<rparr> k < 1"
    by simp
  from generarArrayAleatorio_bounds [OF this, of "-50" 50 3] show ?thesis
    by (simp add: list_all_iff)
qed

text \<open>
  C19. The results printed by \<open>ejecutar\<close> for its seven fixed arrays, whatever the
  random and clock values: the run does not throw, and the four cases of the statement
  print 10, 10, -1, 9, the 1,000 increasing values 500500, the 1,000 negative values -1,
  and the alternating pattern 10, -5, ... 2505.
\<close>
theorem ejecutar_fixed_results:
  "case ejecutar env of Inl _ \<Rightarrow> False
   | Inr (rs, _) \<Rightarrow> drop 5 (map resultado rs) = [10, 10, -1, 9, 500500, -1, 2505]"
proof -
  obtain rs env' where r: "ejecutar env = Inr (rs, env')"
    and a: "list_all2 (resultado_ok (\<forall>k. 0 \<le> aleatorios env k \<and> aleatorios env k < 1))
              (filter es_medicion programa_bench) rs"
    using ejecutar_programa [of env] by blast
  from a have "list_all2 (resultado_ok (\<forall>k. 0 \<le> aleatorios env k \<and> aleatorios env k < 1))
                 (drop 5 (filter es_medicion programa_bench)) (drop 5 rs)"
    by (rule list_all2_dropI)
  then have "map resultado (drop 5 rs) = [10, 10, -1, 9, 500500, -1, 2505]"
    unfolding medidas_programa by (auto simp: list_all2_Cons1 suma_maxima_fijos)
  with r show ?thesis by (simp add: drop_map)
qed


text \<open>
  C20. The results printed for the five random arrays: when \<open>Math.random()\<close> yields
  values in \<open>[0, 1)\<close>, the run does not throw and each result is between \<open>min\<close> and
  \<open>size * max\<close> of its case.
\<close>
theorem ejecutar_random_results_bounds:
  assumes "\<forall>k. 0 \<le> aleatorios env k \<and> aleatorios env k < 1"
  shows "case ejecutar env of Inl _ \<Rightarrow> False
         | Inr (rs, _) \<Rightarrow>
             list_all2 (\<lambda>(t, lo, hi) m. lo \<le> m \<and> m \<le> int t * hi)
               [(10 :: nat, -50 :: int, 50 :: int), (100, -100, 100), (1000, -500, 500),
                (10000, -1000, 1000), (100000, -10000, 10000)]
               (take 5 (map resultado rs))"
proof -
  obtain rs env' where r: "ejecutar env = Inr (rs, env')"
    and a: "list_all2 (resultado_ok (\<forall>k. 0 \<le> aleatorios env k \<and> aleatorios env k < 1))
              (filter es_medicion programa_bench) rs"
    using ejecutar_programa [of env] by blast
  from a have "list_all2 (resultado_ok True) (take 5 (filter es_medicion programa_bench)) (take 5 rs)"
    using assms by (simp add: list_all2_takeI)
  then have "list_all2 (\<lambda>(t, lo, hi) m. lo \<le> m \<and> m \<le> int t * hi)
               [(10 :: nat, -50 :: int, 50 :: int), (100, -100, 100), (1000, -500, 500),
                (10000, -1000, 1000), (100000, -10000, 10000)] (map resultado (take 5 rs))"
    unfolding medidas_programa by (auto simp: list_all2_Cons1)
  with r show ?thesis by (simp add: take_map)
qed

theorem ejecutar_random_results_bounds_witness:
  "case ejecutar \<lparr>aleatorios = \<lambda>_. 1 / 2, usados = 0, reloj = \<lambda>_. 0, lecturas = 0, llamadas = 0, salida = []\<rparr> of Inl _ \<Rightarrow> False
   | Inr (rs, _) \<Rightarrow>
       list_all2 (\<lambda>(t, lo, hi) m. lo \<le> m \<and> m \<le> int t * hi)
         [(10 :: nat, -50 :: int, 50 :: int), (100, -100, 100), (1000, -500, 500),
          (10000, -1000, 1000), (100000, -10000, 10000)]
         (take 5 (map resultado rs))"
  by (rule ejecutar_random_results_bounds) simp

text \<open>
  C21. Resources of \<open>ejecutar\<close>: the run does not throw; it calls \<open>maximaGanancia\<close>
  102312 times (100 warm-up calls, the timed iterations and one call for the printed
  result per benchmark), reads the clock 24 times, draws 111110 random values and prints
  100 lines.
\<close>
theorem ejecutar_counts:
  "case ejecutar env of Inl _ \<Rightarrow> False
   | Inr (_, env') \<Rightarrow>
       llamadas env' = llamadas env + 102312 \<and> lecturas env' = lecturas env + 24 \<and>
       usados env' = usados env + 111110 \<and> length (salida env') = length (salida env) + 100"
  using ejecutar_programa [of env] by auto

text \<open>
  C27. Error path and ordering: \<open>ejecutarBenchmark\<close> on an empty array throws the
  calculator's error in its first warm-up call, before it reads the clock or prints
  anything. The uncaught error ends the whole run: its state is the state after the
  statements before it with exactly one more call of \<open>maximaGanancia\<close>, no clock
  reading and no printed line; no statement after it runs.
\<close>
theorem ejecutar_aborts_on_empty_array:
  "ejecutar_instrucciones (pre @ Medir n (Fijo []) it # post) env =
     seguir (ejecutar_instrucciones pre env)
       (\<lambda>(_, env1). Inl (Error mensaje_vacio, env1\<lparr>llamadas := Suc (llamadas env1)\<rparr>))"
proof (induction pre arbitrary: env)
  case Nil
  show ?case by (simp add: ejecutarBenchmark_vacio)
next
  case (Cons c pre)
  show ?case
  proof (cases "ejecutar_instruccion c env")
    case (Inl e)
    then show ?thesis by simp
  next
    case (Inr r)
    then show ?thesis using Cons.IH
      by (cases r; cases "ejecutar_instrucciones pre (snd r)") auto
  qed
qed

text \<open>
  C26. The report a benchmark prints can be read back to what it measured: the size
  line gives the array's length, the iterations line (thousands separators removed) the
  iteration count, the total-time line a value within 0.005 ms of the difference of the
  two clock readings, the average line a value within 0.00005 ms of that difference over
  the iterations, the operations line (when the clock advanced)
  \<open>Math.floor(1000 / average)\<close>, and the result line the maximum subrange sum.
\<close>
theorem ejecutarBenchmark_report_readable:
  assumes "p \<noteq> []" and "0 < it"
  shows "case ejecutarBenchmark nom p it env of Inl _ \<Rightarrow> False
         | Inr (_, env') \<Rightarrow>
            (let t0 = reloj env (lecturas env); t1 = reloj env (Suc (lecturas env))
             in \<exists>a b c d l e. salida env' = salida env @
                  [nueva_linea @ emoji_grafico @ '' '' @ nom,
                   ''   Tama'' @ n_tilde @ ''o del array: '' @ a,
                   ''   Iteraciones: '' @ b,
                   ''   Tiempo total: '' @ c @ '' ms'',
                   ''   Tiempo promedio: '' @ d @ '' ms'',
                   ''   Operaciones/seg: '' @ l,
                   ''   Resultado: '' @ e] \<and>
                leer_entero a = Some (int (length p)) \<and>
                leer_entero (filter (\<lambda>x. x \<noteq> CHR '','') b) = Some (int it) \<and>
                (\<exists>n. leer_fijo 2 c = Some n \<and> \<bar>of_int n / 100 - (t1 - t0)\<bar> \<le> 1 / 200) \<and>
                (\<exists>n. leer_fijo 4 d = Some n \<and> \<bar>of_int n / 10000 - (t1 - t0) / real it\<bar> \<le> 1 / 20000) \<and>
                (t1 \<noteq> t0 \<longrightarrow>
                   leer_entero (filter (\<lambda>x. x \<noteq> CHR '','') l) = Some \<lfloor>1000 / ((t1 - t0) / real it)\<rfloor>) \<and>
                leer_entero e = Some (suma_maxima p))"
proof -
  define T where "T = reloj env (Suc (lecturas env)) - reloj env (lecturas env)"
  have c: "\<exists>n. leer_fijo 2 (toFixed 2 T) = Some n \<and> \<bar>of_int n / 100 - T\<bar> \<le> 1 / 200"
    using toFixed_within_half_unit [of 2 T] by simp
  have d: "\<exists>n. leer_fijo 4 (toFixed 4 (T / real it)) = Some n \<and>
             \<bar>of_int n / 10000 - T / real it\<bar> \<le> 1 / 20000"
    using toFixed_within_half_unit [of 4 "T / real it"] by simp
  have l: "T \<noteq> 0 \<longrightarrow> leer_entero (filter (\<lambda>x. x \<noteq> CHR '','') (toLocaleString (operaciones_js (T / real it)))) =
             Some \<lfloor>1000 / (T / real it)\<rfloor>"
    using assms(2) by (simp add: operaciones_js_def toLocaleString_roundtrip del: toLocaleString.simps)
  have t: "reloj env (Suc (lecturas env)) \<noteq> reloj env (lecturas env) \<longleftrightarrow> T \<noteq> 0"
    by (simp add: T_def)
  show ?thesis
    using assms(1) c d l t toLocaleString_roundtrip [of "int it"]
    by (simp add: ejecutarBenchmark_ne Let_def T_def [symmetric] del: toLocaleString.simps)
qed

theorem ejecutarBenchmark_report_readable_witness:
  "case ejecutarBenchmark ''x'' [1] 1 \<lparr>aleatorios = \<lambda>_. 0, usados = 0, reloj = real, lecturas = 0, llamadas = 0, salida = []\<rparr> of Inl _ \<Rightarrow> False
   | Inr (_, env') \<Rightarrow>
      (let t0 = reloj \<lparr>aleatorios = \<lambda>_. 0, usados = 0, reloj = real, lecturas = 0, llamadas = 0, salida = []\<rparr> (lecturas \<lparr>aleatorios = \<lambda>_. 0, usados = 0, reloj = real, lecturas = 0, llamadas = 0, salida = []\<rparr>); t1 = reloj \<lparr>aleatorios = \<lambda>_. 0, usados = 0, reloj = real, lecturas = 0, llamadas = 0, salida = []\<rparr> (Suc (lecturas \<lparr>aleatorios = \<lambda>_. 0, usados = 0, reloj = real, lecturas = 0, llamadas = 0, salida = []\<rparr>))
       in \<exists>a b c d l e. salida env' = salida \<lparr>aleatorios = \<lambda>_. 0, usados = 0, reloj = real, lecturas = 0, llamadas = 0, salida = []\<rparr> @
            [nueva_linea @ emoji_grafico @ '' '' @ ''x'',
             ''   Tama'' @ n_tilde @ ''o del array: '' @ a,
             ''   Iteraciones: '' @ b,
             ''   Tiempo total: '' @ c @ '' ms'',
             ''   Tiempo promedio: '' @ d @ '' ms'',
             ''   Operaciones/seg: '' @ l,
             ''   Resultado: '' @ e] \<and>
          leer_entero a = Some (int (length [1::int])) \<and>
          leer_entero (filter (\<lambda>x. x \<noteq> CHR '','') b) = Some (int 1) \<and>
          (\<exists>n. leer_fijo 2 c = Some n \<and> \<bar>of_int n / 100 - (t1 - t0)\<bar> \<le> 1 / 200) \<and>
          (\<exists>n. leer_fijo 4 d = Some n \<and> \<bar>of_int n / 10000 - (t1 - t0) / real (1::nat)\<bar> \<le> 1 / 20000) \<and>
          (t1 \<noteq> t0 \<longrightarrow>
             leer_entero (filter (\<lambda>x. x \<noteq> CHR '','') l) = Some \<lfloor>1000 / ((t1 - t0) / real (1::nat))\<rfloor>) \<and>
          leer_entero e = Some (suma_maxima [1]))"
  by (rule ejecutarBenchmark_report_readable) simp_all

text \<open>
  C28. When the clock does not advance over the timed loop (two equal readings of
  \<open>performance.now()\<close>, possible with a coarse clock and a small array), the average
  time is 0 and \<open>Math.floor(1000 / 0)\<close> is \<open>Infinity\<close>: the benchmark reports infinitely
  many operations per second exactly then, and prints the infinity sign on that line.
\<close>

theorem ejecutarBenchmark_infinity_ops:
  assumes "p \<noteq> []" and "0 < it"
  shows "case ejecutarBenchmark n p it env of Inl _ \<Rightarrow> False
         | Inr (i, env') \<Rightarrow>
             (operaciones_por_segundo i = Infinito \<longleftrightarrow>
                reloj env (Suc (lecturas env)) = reloj env (lecturas env)) \<and>
             (operaciones_por_segundo i = Infinito \<longrightarrow>
                salida env' ! (length (salida env) + 5) = ''   Operaciones/seg: '' @ signo_infinito)"
  using assms by (simp add: ejecutarBenchmark_ne Let_def operaciones_js_def nth_append)

theorem ejecutarBenchmark_infinity_ops_witness:
  "case ejecutarBenchmark ''x'' [1] 1
          \<lparr>aleatorios = \<lambda>_. 0, usados = 0, reloj = \<lambda>_. 5, lecturas = 0, llamadas = 0, salida = []\<rparr> of
     Inl _ \<Rightarrow> False
   | Inr (i, env') \<Rightarrow>
       (operaciones_por_segundo i = Infinito \<longleftrightarrow>
          reloj \<lparr>aleatorios = \<lambda>_. 0, usados = 0, reloj = \<lambda>_. 5, lecturas = 0, llamadas = 0, salida = []\<rparr>
            (Suc (lecturas \<lparr>aleatorios = \<lambda>_. 0, usados = 0, reloj = \<lambda>_. 5, lecturas = 0, llamadas = 0, salida = []\<rparr>)) =
          reloj \<lparr>aleatorios = \<lambda>_. 0, usados = 0, reloj = \<lambda>_. 5, lecturas = 0, llamadas = 0, salida = []\<rparr>
            (lecturas \<lparr>aleatorios = \<lambda>_. 0, usados = 0, reloj = \<lambda>_. 5, lecturas = 0, llamadas = 0, salida = []\<rparr>)) \<and>
       (operaciones_por_segundo i = Infinito \<longrightarrow>
          salida env' ! (length (salida \<lparr>aleatorios = \<lambda>_. 0, usados = 0, reloj = \<lambda>_. 5, lecturas = 0, llamadas = 0, salida = []\<rparr>) + 5) =
            ''   Operaciones/seg: '' @ signo_infinito)"
  by (rule ejecutarBenchmark_infinity_ops) simp_all

end
