(* ===== verification/Spec2Isabelle.thy ===== *)
theory Spec2Isabelle
  imports Test_Suite Benchmark
begin

text \<open>
  \<^bold>\<open>Verification of the maximum-harvest calculator (huerto maldito).\<close>

  \<^bold>\<open>The program.\<close> \<open>src/maximaGanancia.ts\<close> computes the largest sum of a non-empty
  contiguous subrange of an array of integers ("pumpkin plots", positive delicious,
  negative cursed) with Kadane's algorithm. The interface \<open>GananciaCalculator\<close> has one
  implementation, the class \<open>CalculadorGananciaMaxima\<close>: its method \<open>calcular\<close> calls the
  private guard \<open>validar\<close> (throws an \<open>Error\<close> unless the argument is a non-empty array),
  then runs one loop over the indices \<open>1 .. length - 1\<close> that updates two accumulators,
  \<open>gananciaMaximaLocal\<close> and \<open>gananciaMaximaGlobal\<close>. The exported \<open>maximaGanancia\<close>
  builds a fresh calculator and delegates. Two clients call it: the hand-written test
  harness \<open>src/maximaGanancia.test.ts\<close> (a class \<open>TestRunner\<close> with counters, an error
  list and assertion helpers, and a script of 23 tests) and the benchmark driver
  \<open>src/maximaGanancia.bench.ts\<close> (random and fixed arrays, timed repeated calls, a
  console report).

  \<^bold>\<open>Theories.\<close>
  \<^item> \<open>Harvest_Prelude\<close>: the types of the model, JavaScript runtime notions
    (\<open>Number.MAX_SAFE_INTEGER\<close>, the \<open>||\<close> default of an optional string, UTF-8
    spellings of the sources' non-ASCII characters, the separator line), the exception
    combinator \<open>seguir\<close> (a thrown \<open>Inl\<close> skips the rest of a sequence) and shared lemmas
    on slices, absolute sums and \<open>Max\<close>.
  \<^item> \<open>Segment_Spec\<close>: the abstract contract of spec.md, executable: \<open>subrango p i j\<close>
    is \<open>p[i..j]\<close>, \<open>suma_maxima\<close> the maximum over all index pairs \<open>i \<le> j\<close>,
    \<open>max_final\<close> the maximum over the subranges that end at the last element; their
    decomposition by the last element (\<open>segment_snoc\<close>) and its consequences.
  \<^item> \<open>Kadane\<close>: \<open>src/maximaGanancia.ts\<close>. The argument is \<open>entrada\<close> (an array or
    a non-array value), a throw is \<open>Inl (Error msg)\<close>, the loop variables are the record
    \<open>estado\<close>, the loop body is \<open>paso\<close>, the \<open>for\<close> loop is \<open>bucle\<close> (a
    \<^theory_text>\<open>function\<close> on the index with the measure \<open>length p - i\<close>); \<open>calcular\<close>,
    \<open>validar\<close>, \<open>maximaGanancia\<close> are the methods of the same names and
    \<open>calculadorGananciaMaxima\<close> the class as a value of the interface type
    \<open>ganancia_calculator\<close>. Observations: \<open>traza\<close> (the states at the loop heads),
    \<open>inv_kadane\<close> (the loop invariant), \<open>kadane_spec\<close> (the algorithm as spec.md
    writes it) and \<open>cumple_contrato\<close> (the interface's contract).
  \<^item> \<open>Js_Number_Text\<close> and \<open>Js_Format\<close>: how the programs print numbers. The template
    literal \<open>${n}\<close> of an integer (\<open>cadena_numero\<close>, with its reader
    \<open>leer_entero\<close>); \<open>Number.prototype.toLocaleString()\<close> in the en-US format
    (\<open>toLocaleString\<close>, thousands grouped by commas, \<open>Infinity\<close> as the infinity
    sign) and \<open>Number.prototype.toFixed\<close> as ECMA-262 defines it on the exact value
    (\<open>toFixed\<close>: the nearest multiple of \<open>10^-f\<close>, the larger on a tie, zero-padded).
    These are models of the JavaScript runtime, not of repository code; their read-back
    lemmas (the grouped digits and the fixed-point text read back to the number printed)
    are what C26 uses to show which value each line of a benchmark report carries.
  \<^item> \<open>Test_Runner\<close>: the class \<open>TestRunner\<close>. Its fields are the record
    \<open>test_runner\<close>, extended by the console (\<open>proceso\<close>, a list of (stdout or stderr,
    line) pairs). A thrown value is \<open>lanzado\<close>, a callback's outcome \<open>lanzado + 'a\<close>.
    \<open>test\<close>, \<open>assertEqual\<close>, \<open>assertThrows\<close> and \<open>generarReporte\<close> are the methods
    (\<open>process.exit(1)\<close> is the returned \<open>Some 1\<close>); \<open>runner_ok\<close> is the invariant
    failed = length of errors.
  \<^item> \<open>Test_Suite\<close>: the top-level statements of the test file as data (\<open>sentencia\<close>:
    a log line or a test with its body), one definition per section of the file,
    parameterised by the calculators; \<open>script_tests\<close> runs them on a fresh runner and
    reports. The script as a state machine: \<open>alcanzable\<close> (reachable runner states, an
    inductive predicate) and \<open>paso_script\<close> (a small-step relation on configurations
    (runner, statements left)).
  \<^item> \<open>Benchmark\<close>: \<open>src/maximaGanancia.bench.ts\<close>. The environment \<open>entorno_bench\<close>
    supplies \<open>Math.random()\<close> and \<open>performance.now()\<close> as streams of reals read
    through counters, counts the calls of \<open>maximaGanancia\<close> and holds the console lines.
    \<open>generarArrayAleatorio\<close>, \<open>ejecutarBenchmark\<close> (100 warm-up calls, the timed loop,
    seven printed lines, the last one with the result of one more call) and \<open>ejecutar\<close>
    (the statements \<open>programa_bench\<close> of the method, in the order of the file: prints and
    twelve benchmarks) are the methods, \<open>main_bench\<close> the module's last two lines. Every
    call may throw; an uncaught throw ends the run (\<open>seguir\<close>) and carries the state at
    the throw, so the lines printed before it stay observable.

  \<^bold>\<open>What is proved about the calculator\<close> (C1 to C10, C24, in \<open>Kadane\<close>):
  \<open>calcular\<close> refines the abstract maximum (C1) and equals the greatest subrange sum
  (C2); it throws exactly on a non-array or an empty array (C3); the loop invariant holds
  at every loop head (C4); with \<open>sum |x| \<le> 2^53 - 1\<close> every accumulator value and
  intermediate sum is a safe integer (C5); the properties of spec.md section 8: all
  non-negative, all non-positive, bounds, identical elements, a single element (C6 to
  C10); the index loop computes the same value as the spec's structural recursion (C24).

  \<^bold>\<open>What is proved about the test harness\<close> (C11 to C17, C22, C23, C25):
  \<open>assertThrows\<close> passes a callback that does not throw exactly when a non-empty message
  without "Se esperaba que" is given (C11, a defect: the assertion's own error is
  swallowed by its \<open>catch\<close>); \<open>test\<close> keeps the runner invariant (C12); the report exits
  with code 1 exactly when a test failed (C13); the default message of \<open>assertEqual\<close>
  reads back to the two values (C14); all 23 tests pass for every calculator meeting the
  contract (C15); the empty-array test passes also for a calculator that returns a value
  on an empty array (C16); every test is counted once (C17). By rule induction every
  reachable runner state keeps the errors array and the stderr lines in step with one
  list of failures (C22); across components (this theory) the script's whole stderr and
  exit code agree with that list for any calculator (C23); and from every configuration
  the script reaches, the counted tests plus the tests still to run are the file's 23, and
  the run reaches its report with all of them counted (C25).

  \<^bold>\<open>What is proved about the benchmark\<close> (C18 to C21, C26 to C28): generated values
  lie in \<open>[min, max]\<close> (C18); the run never throws and its seven fixed cases print 10,
  10, -1, 9, 500500, -1 and 2505 (C19); the random cases print results within their
  ranges (C20); the run makes exactly 102312 calls, 24 clock readings, 111110 random draws
  and prints 100 lines (C21); the seven lines a benchmark prints read back to what it
  measured: size, iterations, total and average time to within half a unit of the
  printed place, operations per second and the result (C26); a benchmark of an empty array
  throws in its first warm-up call, before any clock reading or printed line, and ends the
  run there (C27); a benchmark prints infinitely many operations per second exactly when
  its two clock readings are equal (C28).

  \<^bold>\<open>Numbers.\<close> JavaScript \<open>number\<close> is a double. The calculator's model uses
  \<open>int\<close> with exact addition; C5 states the input bound under which every value the loop
  computes is an integer of magnitude at most \<open>2^53 - 1\<close>, where double addition of
  integers is exact, and \<open>Math.max\<close> on such integers is \<open>max\<close>. The random and
  clock values of the benchmark are exact reals.

  \<^bold>\<open>Not modelled.\<close> The double rounding of \<open>Math.random() * (max - min + 1)\<close> and of
  the time arithmetic (the generator's range holds for every real in \<open>[0, 1)\<close>); the
  exponent branch of \<open>toFixed\<close> for values of at least \<open>10^21\<close> ms and the value of
  an average over zero iterations (every call site passes 100, 1000 or 10000) and the
  overflow of \<open>1000 / average\<close> to \<open>Infinity\<close> for averages below about \<open>10^-305\<close>; locales
  other than en-US for \<open>toLocaleString()\<close>, whose output depends on the host; the
  TypeScript types beyond the array/non-array distinction of \<open>entrada\<close>. No fuel is
  used: every loop of the program is bounded by an array length or a constant, and each
  is a \<^theory_text>\<open>fun\<close> or a \<^theory_text>\<open>function\<close> with a measure.
\<close>

section \<open>Properties across components\<close>

text \<open>
  C23. The whole test script, for any calculator behind \<open>maximaGanancia\<close> and
  \<open>CalculadorGananciaMaxima\<close>: there is one list of failures (description, message)
  such that the errors kept by the runner, everything written to stderr (the two lines of
  each failed test, then the report's header and one line per error) and the exit code
  (1 exactly when the list is non-empty) all agree with it.
\<close>

theorem script_stderr_matches_report:
  "\<exists>fs. errors (fst (script_tests f c)) = map registro_error fs \<and>
        [l \<leftarrow> consola (fst (script_tests f c)). fst l = Stderr] =
          concat (map lineas_error fs) @
          (if fs = [] then []
           else (Stderr, nueva_linea @ ''Errores encontrados:'') #
                map (\<lambda>x. (Stderr, ''  - '' @ registro_error x)) fs) \<and>
        snd (script_tests f c) = (if fs = [] then None else Some 1)"
proof -
  let ?st = "foldl ejecutar_sentencia (nuevo_test_runner []) (suite f c)"
  have "alcanzable ?st" using alcanzable_iff_foldl by blast
  then obtain fs where fs: "length fs = testsFailed ?st" "errors ?st = map registro_error fs"
    "[l \<leftarrow> consola ?st. fst l = Stderr] = concat (map lineas_error fs)"
    using alcanzable_errores by blast
  then have "0 < testsFailed ?st \<longleftrightarrow> fs \<noteq> []" by (metis length_greater_0_conv)
  with fs show ?thesis
    by (intro exI [of _ fs]) (auto simp: script_tests_def generarReporte_def Let_def)
qed

end
